theory Spec2Isabelle
  imports Main
begin

section \<open>Errors (shared/middleware/error-handler.ts)\<close>

text \<open>
  The classes of error-handler.ts. \<open>AppError statusCode code message\<close> is the
  class AppError (the optional \<open>details\<close> is never set by the code modelled here);
  its subclasses only fix the first two arguments, so they are functions into
  \<open>AppError\<close>. \<open>ZodError\<close> is the validation library's error and \<open>OtherError\<close>
  any other thrown Error with its message (for instance a rejection by the Prisma
  client).
\<close>

datatype error = ZodError | AppError int string string | OtherError string

definition UnauthorizedError :: "string \<Rightarrow> error" where
  "UnauthorizedError message = AppError 401 ''UNAUTHORIZED'' message"

definition ForbiddenError :: "string \<Rightarrow> error" where
  "ForbiddenError message = AppError 403 ''FORBIDDEN'' message"

definition NotFoundError :: "string \<Rightarrow> error" where
  "NotFoundError resource = AppError 404 ''NOT_FOUND'' (resource @ '' not found'')"

definition ConflictError :: "string \<Rightarrow> error" where
  "ConflictError message = AppError 409 ''CONFLICT'' message"

section \<open>The identity attached to a request (shared/types/index.ts)\<close>

text \<open>
  Record fields are global names in HOL, so each field carries a prefix of its
  interface: \<open>rp_\<close> for an element of \<open>roles[i].permissions\<close>, \<open>ra_\<close> for an
  element of \<open>AuthenticatedUser.roles\<close>, \<open>au_\<close> for AuthenticatedUser and
  \<open>pc_\<close> for PermissionCheck. A TypeScript \<open>string | null\<close> and an optional
  \<open>string\<close> are both \<open>string option\<close>.
\<close>

record Permission =
  permission_id :: string
  permission_name :: string

record Role =
  role_id :: string
  role_name :: string
  role_domain :: string

record granted_permission =
  rp_permission :: Permission
  rp_scope :: "string option"

record held_role =
  ra_role :: Role
  ra_organizationId :: "string option"
  ra_permissions :: "granted_permission list"

record AuthenticatedUser =
  au_id :: string
  au_email :: string
  au_sessionId :: string
  au_roles :: "held_role list"

record PermissionCheck =
  pc_permission :: string
  pc_scope :: "string option"
  pc_organizationId :: "string option"

text \<open>
  JavaScript truthiness of an optional string, as used by \<open>check.organizationId &&\<close>
  and \<open>!check.scope\<close>: undefined and the empty string are falsy, every other
  string is truthy.
\<close>

definition truthy :: "string option \<Rightarrow> bool" where
  "truthy v = (case v of None \<Rightarrow> False | Some s \<Rightarrow> s \<noteq> [])"

section \<open>The authorization gate (shared/middleware/auth.ts)\<close>

text \<open>
  The callback of \<open>roleAssignment.permissions.some\<close>: the permission name must be
  equal and the scope is compared only when the check carries a truthy scope.
\<close>

definition permMatches :: "PermissionCheck \<Rightarrow> granted_permission \<Rightarrow> bool" where
  "permMatches check perm =
     (let permissionMatch = (permission_name (rp_permission perm) = pc_permission check);
          scopeMatch = (\<not> truthy (pc_scope check) \<or> rp_scope perm = pc_scope check)
      in permissionMatch \<and> scopeMatch)"

text \<open>
  The callback of \<open>req.user.roles.some\<close>: the early \<open>return false\<close> on an
  organization mismatch, then the search through the role's permissions.
\<close>

definition roleSatisfies :: "PermissionCheck \<Rightarrow> held_role \<Rightarrow> bool" where
  "roleSatisfies check roleAssignment =
     (if truthy (pc_organizationId check)
         \<and> ra_organizationId roleAssignment \<noteq> pc_organizationId check
      then False
      else list_ex (permMatches check) (ra_permissions roleAssignment))"

definition hasPermission :: "PermissionCheck list \<Rightarrow> AuthenticatedUser \<Rightarrow> bool" where
  "hasPermission checks user =
     list_ex (\<lambda>check. list_ex (roleSatisfies check) (au_roles user)) checks"

text \<open>
  \<open>requirePermission(...checks)\<close> applied to a request whose \<open>req.user\<close> is the
  second argument (None when authenticate did not run). \<open>Inr ()\<close> is the call
  of \<open>next()\<close>, \<open>Inl e\<close> the call of \<open>next(e)\<close>.
\<close>

definition requirePermission :: "PermissionCheck list \<Rightarrow> AuthenticatedUser option \<Rightarrow> error + unit" where
  "requirePermission checks req_user =
     (case req_user of
        None \<Rightarrow> Inl (UnauthorizedError ''Authentication required'')
      | Some user \<Rightarrow>
          if \<not> hasPermission checks user
          then Inl (ForbiddenError ''Insufficient permissions'')
          else Inr ())"

section \<open>The persistence store (the tables the Prisma client reads and writes)\<close>

text \<open>
  Each table is the list of its rows, in insertion order. Only the columns the code
  reads or writes are kept. A timestamp is the number of milliseconds since the
  epoch, which is what the comparison of two JavaScript Date objects compares.
\<close>

record User =
  user_id :: string
  user_email :: string
  user_passwordHash :: string
  user_isActive :: bool
  user_lastLoginAt :: "int option"

record Profile =
  profile_id :: string
  profile_userId :: string
  profile_firstName :: "string option"
  profile_lastName :: "string option"

record Session =
  session_id :: string
  session_userId :: string
  session_token :: string
  session_csrfToken :: string
  session_userAgent :: "string option"
  session_ipAddress :: "string option"
  session_expiresAt :: int

record UserRoleAssignment =
  ura_userId :: string
  ura_roleId :: string
  ura_organizationId :: "string option"

record RolePermission =
  rpr_roleId :: string
  rpr_permissionId :: string
  rpr_scopeId :: "string option"

record PermissionScope =
  scope_id :: string
  scope_name :: string

record AuditLog =
  al_userId :: "string option"
  al_action :: string
  al_resource :: "string option"
  al_resourceId :: "string option"
  al_ipAddress :: "string option"
  al_userAgent :: "string option"

record Consent =
  consent_id :: string
  consent_profileId :: string
  consent_type :: string
  consent_granted :: bool
  consent_grantedAt :: int
  consent_version :: string
  consent_ipAddress :: "string option"
  consent_revokedAt :: "int option"

record OperatingHour =
  oh_salesInstanceId :: string
  oh_dayOfWeek :: int
  oh_openTime :: string
  oh_closeTime :: string
  oh_isOpen :: bool

record store =
  users :: "User list"
  profiles :: "Profile list"
  sessions :: "Session list"
  roles :: "Role list"
  userRoleAssignments :: "UserRoleAssignment list"
  rolePermissions :: "RolePermission list"
  permissions :: "Permission list"
  permissionScopes :: "PermissionScope list"
  auditLogs :: "AuditLog list"
  consents :: "Consent list"
  operatingHours :: "OperatingHour list"

text \<open>
  What a call reads from outside the store.
  \<^item> The clock: \<open>rt_now\<close> is the reading of \<open>new Date()\<close> in the call (the
    model reads it once per call), and \<open>rt_signedAt\<close> is the reading that
    \<open>jwt.sign\<close> takes by itself when it stamps the credential, after the session
    row has been inserted.
  \<^item> The identifiers the database generates for new rows and the two
    \<open>crypto.randomBytes(32).toString('hex')\<close> values.
  \<^item> The environment of config/env.ts: \<open>JWT_SECRET\<close>, and
    \<open>JWT_EXPIRES_IN\<close> as a number of seconds (the default \<open>'7d'\<close> is 604800).
  \<^item> The server's time zone, as the function LocalTZA of ECMAScript: the offset of
    local time from UTC in milliseconds, at a UTC instant (second argument True) or
    at a local instant (second argument False).
  \<^item> The built-in \<open>String.prototype.toLowerCase\<close> and the two password
    functions of shared/utils, which are outside the sources.
\<close>

record JwtPayload =
  jwt_userId :: string
  jwt_sessionId :: string

record runtime =
  rt_now :: int
  rt_signedAt :: int
  rt_new_userId :: string
  rt_new_profileId :: string
  rt_new_sessionId :: string
  rt_new_consentId :: string
  rt_random_token :: string
  rt_random_csrfToken :: string
  rt_JWT_SECRET :: string
  rt_JWT_EXPIRES_IN :: int
  rt_LocalTZA :: "int \<Rightarrow> bool \<Rightarrow> int"
  rt_toLowerCase :: "string \<Rightarrow> string"
  rt_hashPassword :: "string \<Rightarrow> string"
  rt_verifyPassword :: "string \<Rightarrow> string \<Rightarrow> bool"

subsection \<open>The signed credential (jsonwebtoken)\<close>

text \<open>
  Modelled from the spec: the signed assertion of the session manager (it carries the
  user id and the session id, is signed with the server secret and has an expiry of
  its own), made and checked by the jsonwebtoken library, which is not among the
  sources. A cookie value is either a token made by \<open>jwt.sign\<close>, with its
  payload, its claims \<open>iat\<close> and \<open>exp\<close> in seconds and the secret it was
  signed with, or any other text. \<open>jwt.sign\<close> with \<open>expiresIn\<close> stamps
  \<open>iat = floor(now / 1000)\<close> and \<open>exp = iat + expiresIn\<close>; \<open>jwt.verify\<close>
  returns the payload when the signature is one of the verifying secret and
  \<open>floor(now / 1000) < exp\<close>, and throws (None) otherwise.
\<close>

datatype token = Jwt JwtPayload int int string | Opaque string

definition jwt_sign :: "JwtPayload \<Rightarrow> string \<Rightarrow> int \<Rightarrow> int \<Rightarrow> token" where
  "jwt_sign payload secret expiresIn now =
     (let iat = now div 1000 in Jwt payload iat (iat + expiresIn) secret)"

definition jwt_verify :: "token \<Rightarrow> string \<Rightarrow> int \<Rightarrow> JwtPayload option" where
  "jwt_verify tok secret now =
     (case tok of
        Jwt payload iat exp signedWith \<Rightarrow>
          if signedWith = secret \<and> now div 1000 < exp then Some payload else None
      | Opaque text \<Rightarrow> None)"

subsection \<open>Date arithmetic\<close>

text \<open>
  \<open>d.setDate(d.getDate() + n)\<close> as ECMAScript defines it: the instant is taken to
  local time, moved by \<open>n\<close> calendar days with the time of day kept, and taken
  back to UTC. Where the offset of the zone is the same at both ends this adds
  \<open>n\<close> times 24 hours; across a change of the offset it does not.
\<close>

definition msPerDay :: int where
  "msPerDay = 24 * 60 * 60 * 1000"

definition LocalTime :: "runtime \<Rightarrow> int \<Rightarrow> int" where
  "LocalTime rt t = t + rt_LocalTZA rt t True"

definition UTC :: "runtime \<Rightarrow> int \<Rightarrow> int" where
  "UTC rt t = t - rt_LocalTZA rt t False"

definition setDate_plus :: "runtime \<Rightarrow> int \<Rightarrow> int \<Rightarrow> int" where
  "setDate_plus rt n t = UTC rt (LocalTime rt t + n * msPerDay)"

text \<open>The part of the request the services read: \<open>req.ip\<close> and the user-agent header.\<close>

record request_meta =
  req_ip :: "string option"
  req_userAgent :: "string option"

subsection \<open>Prisma calls\<close>

text \<open>
  \<open>findUnique\<close> is the first row with the key. \<open>create\<close> is rejected when a
  unique key of the new row is taken (the keys are those the code passes to
  findUnique: the id of every table, the email of a user), \<open>update\<close> and
  \<open>delete\<close> when no row has the key; a rejection is a thrown error that is not
  an AppError. \<open>deleteMany\<close> never fails. A row of a table that the code never
  looks up by a key (a role assignment, an audit log entry) is appended.
\<close>

definition user_findUnique_email :: "string \<Rightarrow> store \<Rightarrow> User option" where
  "user_findUnique_email e s = find (\<lambda>u. user_email u = e) (users s)"

definition user_findUnique_id :: "string \<Rightarrow> store \<Rightarrow> User option" where
  "user_findUnique_id i s = find (\<lambda>u. user_id u = i) (users s)"

definition session_findUnique :: "string \<Rightarrow> store \<Rightarrow> Session option" where
  "session_findUnique i s = find (\<lambda>x. session_id x = i) (sessions s)"

definition role_findUnique_name :: "string \<Rightarrow> store \<Rightarrow> Role option" where
  "role_findUnique_name n s = find (\<lambda>r. role_name r = n) (roles s)"

definition profile_findUnique_userId :: "string \<Rightarrow> store \<Rightarrow> Profile option" where
  "profile_findUnique_userId i s = find (\<lambda>p. profile_userId p = i) (profiles s)"

text \<open>
  Modelled from the spec: the default of the column isActive, which the schema
  (prisma/schema.prisma, not among the sources) gives to a user created without it;
  the spec's register scenario has the new user pass the authentication gate.
\<close>

definition default_isActive :: bool where
  "default_isActive = True"

text \<open>\<open>prisma.user.create\<close> with the nested \<open>profile: { create: ... }\<close>: one statement.\<close>

definition user_create ::
  "string \<Rightarrow> string \<Rightarrow> string \<Rightarrow> string \<Rightarrow> string option \<Rightarrow> string option \<Rightarrow> store \<Rightarrow> error + (store \<times> User)" where
  "user_create uid pid email passwordHash firstName lastName s =
     (if user_findUnique_id uid s \<noteq> None \<or> user_findUnique_email email s \<noteq> None
         \<or> find (\<lambda>p. profile_id p = pid) (profiles s) \<noteq> None
         \<or> profile_findUnique_userId uid s \<noteq> None
      then Inl (OtherError ''Unique constraint failed'')
      else
        let user = \<lparr>user_id = uid, user_email = email, user_passwordHash = passwordHash,
                    user_isActive = default_isActive, user_lastLoginAt = None\<rparr>;
            profile = \<lparr>profile_id = pid, profile_userId = uid,
                       profile_firstName = firstName, profile_lastName = lastName\<rparr>
        in Inr (s\<lparr>users := users s @ [user], profiles := profiles s @ [profile]\<rparr>, user))"

definition user_update :: "string \<Rightarrow> (User \<Rightarrow> User) \<Rightarrow> store \<Rightarrow> error + store" where
  "user_update uid f s =
     (if user_findUnique_id uid s = None
      then Inl (OtherError ''Record to update not found'')
      else Inr (s\<lparr>users := map (\<lambda>u. if user_id u = uid then f u else u) (users s)\<rparr>))"

definition session_create :: "Session \<Rightarrow> store \<Rightarrow> error + store" where
  "session_create row s =
     (if session_findUnique (session_id row) s \<noteq> None
      then Inl (OtherError ''Unique constraint failed'')
      else Inr (s\<lparr>sessions := sessions s @ [row]\<rparr>))"

definition session_delete :: "string \<Rightarrow> store \<Rightarrow> error + store" where
  "session_delete sid s =
     (if session_findUnique sid s = None
      then Inl (OtherError ''Record to delete does not exist'')
      else Inr (s\<lparr>sessions := filter (\<lambda>x. session_id x \<noteq> sid) (sessions s)\<rparr>))"

definition session_deleteMany_userId :: "string \<Rightarrow> store \<Rightarrow> error + store" where
  "session_deleteMany_userId uid s =
     Inr (s\<lparr>sessions := filter (\<lambda>x. session_userId x \<noteq> uid) (sessions s)\<rparr>)"

definition userRoleAssignment_create :: "UserRoleAssignment \<Rightarrow> store \<Rightarrow> store" where
  "userRoleAssignment_create row s = s\<lparr>userRoleAssignments := userRoleAssignments s @ [row]\<rparr>"

text \<open>
  \<open>prisma.$transaction([w1, ..., wn])\<close>: the writes run in order on the store;
  when one is rejected the call throws and the caller keeps the store it had before
  the call, so nothing of the group is visible.
\<close>

fun run_writes :: "(store \<Rightarrow> error + store) list \<Rightarrow> store \<Rightarrow> error + store" where
  "run_writes [] s = Inr s"
| "run_writes (w # ws) s = (case w s of Inl e \<Rightarrow> Inl e | Inr s' \<Rightarrow> run_writes ws s')"

definition prisma_transaction :: "(store \<Rightarrow> error + store) list \<Rightarrow> store \<Rightarrow> store \<times> (error + unit)" where
  "prisma_transaction ws s =
     (case run_writes ws s of Inl e \<Rightarrow> (s, Inl e) | Inr s' \<Rightarrow> (s', Inr ()))"

subsection \<open>shared/utils/audit.ts\<close>

text \<open>\<open>createAuditLog\<close>; the free-form \<open>metadata\<close> of an entry is left out.\<close>

definition createAuditLog ::
  "string option \<Rightarrow> string \<Rightarrow> string option \<Rightarrow> string option \<Rightarrow> request_meta option \<Rightarrow> store \<Rightarrow> store" where
  "createAuditLog userId action resource resourceId req s =
     s\<lparr>auditLogs := auditLogs s @
        [\<lparr>al_userId = userId, al_action = action, al_resource = resource,
          al_resourceId = resourceId,
          al_ipAddress = (case req of None \<Rightarrow> None | Some r \<Rightarrow> req_ip r),
          al_userAgent = (case req of None \<Rightarrow> None | Some r \<Rightarrow> req_userAgent r)\<rparr>]\<rparr>"

section \<open>The session manager and credential flows (modules/identity/auth.service.ts)\<close>

text \<open>
  A method of AuthService takes the store and returns the store it leaves behind
  together with its outcome: \<open>Inl e\<close> when it throws \<open>e\<close>, \<open>Inr v\<close> when
  it returns \<open>v\<close>. Writes made before a throw stay in the returned store.
\<close>

record RegisterInput =
  ri_email :: string
  ri_password :: string
  ri_firstName :: "string option"
  ri_lastName :: "string option"

record LoginInput =
  li_email :: string
  li_password :: string

record ChangePasswordInput =
  cp_currentPassword :: string
  cp_newPassword :: string

record AuthResult =
  ar_user_id :: string
  ar_user_email :: string
  ar_token :: token
  ar_csrfToken :: string
  ar_expiresAt :: int

text \<open>
  \<open>createSession\<close>. The expiry is \<open>expiresAt.setDate(expiresAt.getDate() + 7)\<close>
  on the current date. The method returns \<open>{ ...session, token }\<close>, the stored
  row with its \<open>token\<close> field replaced by the signed JWT: here the pair of the
  stored row and the JWT.
\<close>

definition createSession :: "runtime \<Rightarrow> string \<Rightarrow> request_meta option \<Rightarrow> store \<Rightarrow> store \<times> (error + Session \<times> token)" where
  "createSession rt userId req s =
     (let expiresAt = setDate_plus rt 7 (rt_now rt);
          csrfToken = rt_random_csrfToken rt;
          session = \<lparr>session_id = rt_new_sessionId rt, session_userId = userId,
                     session_token = rt_random_token rt, session_csrfToken = csrfToken,
                     session_userAgent = (case req of None \<Rightarrow> None | Some r \<Rightarrow> req_userAgent r),
                     session_ipAddress = (case req of None \<Rightarrow> None | Some r \<Rightarrow> req_ip r),
                     session_expiresAt = expiresAt\<rparr>
      in case session_create session s of
           Inl e \<Rightarrow> (s, Inl e)
         | Inr s' \<Rightarrow>
             let token = jwt_sign \<lparr>jwt_userId = userId, jwt_sessionId = session_id session\<rparr>
                           (rt_JWT_SECRET rt) (rt_JWT_EXPIRES_IN rt) (rt_signedAt rt)
             in (s', Inr (session, token)))"

text \<open>The row that \<open>createSession\<close> inserts when it is called without a request.\<close>

definition createdSessionRow :: "runtime \<Rightarrow> string \<Rightarrow> Session" where
  "createdSessionRow rt userId =
     \<lparr>session_id = rt_new_sessionId rt, session_userId = userId,
      session_token = rt_random_token rt, session_csrfToken = rt_random_csrfToken rt,
      session_userAgent = None, session_ipAddress = None,
      session_expiresAt = setDate_plus rt 7 (rt_now rt)\<rparr>"

definition register :: "runtime \<Rightarrow> RegisterInput \<Rightarrow> request_meta option \<Rightarrow> store \<Rightarrow> store \<times> (error + AuthResult)" where
  "register rt input req s =
     (case user_findUnique_email (rt_toLowerCase rt (ri_email input)) s of
        Some existingUser \<Rightarrow> (s, Inl (ConflictError ''Email already registered''))
      | None \<Rightarrow>
          let passwordHash = rt_hashPassword rt (ri_password input)
          in (case user_create (rt_new_userId rt) (rt_new_profileId rt)
                     (rt_toLowerCase rt (ri_email input)) passwordHash
                     (ri_firstName input) (ri_lastName input) s of
                Inl e \<Rightarrow> (s, Inl e)
              | Inr (s1, user) \<Rightarrow>
                  let s2 = (case role_findUnique_name ''consumer'' s1 of
                              Some consumerRole \<Rightarrow>
                                userRoleAssignment_create
                                  \<lparr>ura_userId = user_id user, ura_roleId = role_id consumerRole,
                                   ura_organizationId = None\<rparr> s1
                            | None \<Rightarrow> s1)
                  in (case createSession rt (user_id user) req s2 of
                        (s3, Inl e) \<Rightarrow> (s3, Inl e)
                      | (s3, Inr (session, token)) \<Rightarrow>
                          let s4 = createAuditLog (Some (user_id user)) ''user.register''
                                     (Some ''user'') (Some (user_id user)) req s3
                          in (s4, Inr \<lparr>ar_user_id = user_id user, ar_user_email = user_email user,
                                       ar_token = token,
                                       ar_csrfToken = session_csrfToken session,
                                       ar_expiresAt = session_expiresAt session\<rparr>))))"

definition login :: "runtime \<Rightarrow> LoginInput \<Rightarrow> request_meta option \<Rightarrow> store \<Rightarrow> store \<times> (error + AuthResult)" where
  "login rt input req s =
     (case user_findUnique_email (rt_toLowerCase rt (li_email input)) s of
        None \<Rightarrow> (s, Inl (UnauthorizedError ''Invalid email or password''))
      | Some user \<Rightarrow>
          if \<not> user_isActive user then (s, Inl (UnauthorizedError ''Account is deactivated''))
          else
            let isValid = rt_verifyPassword rt (li_password input) (user_passwordHash user)
            in if \<not> isValid then (s, Inl (UnauthorizedError ''Invalid email or password''))
               else
                 (case user_update (user_id user) (\<lambda>u. u\<lparr>user_lastLoginAt := Some (rt_now rt)\<rparr>) s of
                    Inl e \<Rightarrow> (s, Inl e)
                  | Inr s1 \<Rightarrow>
                      (case createSession rt (user_id user) req s1 of
                         (s2, Inl e) \<Rightarrow> (s2, Inl e)
                       | (s2, Inr (session, token)) \<Rightarrow>
                           let s3 = createAuditLog (Some (user_id user)) ''user.login''
                                      (Some ''user'') (Some (user_id user)) req s2
                           in (s3, Inr \<lparr>ar_user_id = user_id user, ar_user_email = user_email user,
                                        ar_token = token,
                                        ar_csrfToken = session_csrfToken session,
                                        ar_expiresAt = session_expiresAt session\<rparr>))))"

definition logout :: "string \<Rightarrow> request_meta option \<Rightarrow> store \<Rightarrow> store \<times> (error + unit)" where
  "logout sessionId req s =
     (case session_findUnique sessionId s of
        None \<Rightarrow> (s, Inr ())
      | Some session \<Rightarrow>
          (case session_delete sessionId s of
             Inl e \<Rightarrow> (s, Inl e)
           | Inr s1 \<Rightarrow>
               (createAuditLog (Some (session_userId session)) ''user.logout''
                  (Some ''session'') (Some sessionId) req s1, Inr ())))"

definition changePassword :: "runtime \<Rightarrow> string \<Rightarrow> ChangePasswordInput \<Rightarrow> request_meta option \<Rightarrow> store \<Rightarrow> store \<times> (error + unit)" where
  "changePassword rt userId input req s =
     (case user_findUnique_id userId s of
        None \<Rightarrow> (s, Inl (NotFoundError ''User''))
      | Some user \<Rightarrow>
          let isValid = rt_verifyPassword rt (cp_currentPassword input) (user_passwordHash user)
          in if \<not> isValid then (s, Inl (UnauthorizedError ''Current password is incorrect''))
             else
               let passwordHash = rt_hashPassword rt (cp_newPassword input)
               in (case prisma_transaction
                          [user_update userId (\<lambda>u. u\<lparr>user_passwordHash := passwordHash\<rparr>),
                           session_deleteMany_userId userId] s of
                     (s1, Inl e) \<Rightarrow> (s1, Inl e)
                   | (s1, Inr u) \<Rightarrow>
                       (createAuditLog (Some userId) ''user.password_reset''
                          (Some ''user'') (Some userId) req s1, Inr ())))"

text \<open>
  \<open>refreshSession\<close> loads the session with \<open>include: { user: true }\<close>. The owning
  user is read only for the returned id and email; a session whose user row is
  missing cannot exist under the foreign key and makes the property access throw.
\<close>

definition refreshSession :: "runtime \<Rightarrow> string \<Rightarrow> store \<Rightarrow> store \<times> (error + AuthResult option)" where
  "refreshSession rt sessionId s =
     (case session_findUnique sessionId s of
        None \<Rightarrow> (s, Inr None)
      | Some session \<Rightarrow>
          if session_expiresAt session < rt_now rt then (s, Inr None)
          else
            (case createSession rt (session_userId session) None s of
               (s1, Inl e) \<Rightarrow> (s1, Inl e)
             | (s1, Inr (newSession, token)) \<Rightarrow>
                 (case session_delete sessionId s1 of
                    Inl e \<Rightarrow> (s1, Inl e)
                  | Inr s2 \<Rightarrow>
                      (case user_findUnique_id (session_userId session) s of
                         None \<Rightarrow> (s2, Inl (OtherError ''Cannot read properties of null''))
                       | Some user \<Rightarrow>
                           (s2, Inr (Some \<lparr>ar_user_id = user_id user, ar_user_email = user_email user,
                                           ar_token = token,
                                           ar_csrfToken = session_csrfToken newSession,
                                           ar_expiresAt = session_expiresAt newSession\<rparr>))))))"

section \<open>The authentication gate (shared/middleware/auth.ts)\<close>

text \<open>
  The include tree of the session query, flattened as \<open>authenticate\<close> does. A
  required relation (the role of an assignment, the permission of a grant) always
  has its row under the schema's foreign keys; the join skips a row that has none.
  The optional scope of a grant gives \<open>rp.scope?.name ?? null\<close>.
\<close>

definition grantedPermissions :: "string \<Rightarrow> store \<Rightarrow> granted_permission list" where
  "grantedPermissions roleId s =
     List.map_filter
       (\<lambda>rp. case find (\<lambda>p. permission_id p = rpr_permissionId rp) (permissions s) of
                None \<Rightarrow> None
              | Some permission \<Rightarrow>
                  Some \<lparr>rp_permission = permission,
                        rp_scope = (case rpr_scopeId rp of
                                      None \<Rightarrow> None
                                    | Some scopeId \<Rightarrow>
                                        map_option scope_name
                                          (find (\<lambda>sc. scope_id sc = scopeId) (permissionScopes s)))\<rparr>)
       (filter (\<lambda>rp. rpr_roleId rp = roleId) (rolePermissions s))"

definition heldRoles :: "string \<Rightarrow> store \<Rightarrow> held_role list" where
  "heldRoles userId s =
     List.map_filter
       (\<lambda>ra. case find (\<lambda>r. role_id r = ura_roleId ra) (roles s) of
                None \<Rightarrow> None
              | Some role \<Rightarrow>
                  Some \<lparr>ra_role = role, ra_organizationId = ura_organizationId ra,
                        ra_permissions = grantedPermissions (role_id role) s\<rparr>)
       (filter (\<lambda>ra. ura_userId ra = userId) (userRoleAssignments s))"

text \<open>What \<open>authenticate\<close> attaches to the request: req.user, req.session, req.csrfToken.\<close>

record auth_context =
  ac_user :: AuthenticatedUser
  ac_session :: Session
  ac_csrfToken :: string

text \<open>
  \<open>authenticate\<close> on a request whose cookie \<open>auth_token\<close> is the second
  argument (None when the cookie is absent; the empty text is falsy for
  \<open>!token\<close> as well). \<open>jwt.verify\<close> is called with \<open>env.JWT_SECRET\<close> at
  the clock reading of the call. It never writes to the store.
  \<open>Inr ctx\<close> is the call of \<open>next()\<close>, \<open>Inl e\<close> the call of \<open>next(e)\<close>.
\<close>

definition authenticate :: "runtime \<Rightarrow> token option \<Rightarrow> store \<Rightarrow> error + auth_context" where
  "authenticate rt cookie s =
     (case cookie of
        None \<Rightarrow> Inl (UnauthorizedError ''No authentication token provided'')
      | Some token \<Rightarrow>
          if token = Opaque [] then Inl (UnauthorizedError ''No authentication token provided'')
          else
            (case jwt_verify token (rt_JWT_SECRET rt) (rt_now rt) of
               None \<Rightarrow> Inl (UnauthorizedError ''Invalid or expired token'')
             | Some payload \<Rightarrow>
                 (case session_findUnique (jwt_sessionId payload) s of
                    None \<Rightarrow> Inl (UnauthorizedError ''Session expired or invalid'')
                  | Some session \<Rightarrow>
                      if session_expiresAt session < rt_now rt
                      then Inl (UnauthorizedError ''Session expired or invalid'')
                      else
                        (case user_findUnique_id (session_userId session) s of
                           None \<Rightarrow> Inl (OtherError ''Cannot read properties of null'')
                         | Some user \<Rightarrow>
                             if \<not> user_isActive user
                             then Inl (UnauthorizedError ''User account is deactivated'')
                             else
                               Inr \<lparr>ac_user =
                                      \<lparr>au_id = user_id user, au_email = user_email user,
                                       au_sessionId = session_id session,
                                       au_roles = heldRoles (user_id user) s\<rparr>,
                                    ac_session = session,
                                    ac_csrfToken = session_csrfToken session\<rparr>))))"

section \<open>Responses and the error handler (shared/middleware/error-handler.ts)\<close>

text \<open>
  The part of an Express response the handlers set: the status (200 until set), the
  cookie operations in the order they were issued, and the JSON body. A body is
  \<open>Failure code message\<close> (\<open>success: false\<close>) or \<open>Success data\<close>.
\<close>

datatype cookie_op = SetCookie string token | ClearCookie string

datatype api_data =
    AuthData string string string int
  | ConsentData Consent
  | HoursData "OperatingHour list"

datatype api_body = Success api_data | Failure string string

record response =
  res_status :: int
  res_cookies :: "cookie_op list"
  res_body :: "api_body option"

definition res0 :: response where
  "res0 = \<lparr>res_status = 200, res_cookies = [], res_body = None\<rparr>"

text \<open>
  \<open>errorHandler\<close>, with \<open>env.NODE_ENV\<close> as its first argument. The
  \<open>details\<close> of the body and the console output are left out.
\<close>

definition errorHandler :: "string \<Rightarrow> error \<Rightarrow> response \<Rightarrow> response" where
  "errorHandler node_env err res =
     (case err of
        ZodError \<Rightarrow>
          res\<lparr>res_status := 400, res_body := Some (Failure ''VALIDATION_ERROR'' ''Validation failed'')\<rparr>
      | AppError statusCode code message \<Rightarrow>
          res\<lparr>res_status := statusCode, res_body := Some (Failure code message)\<rparr>
      | OtherError message \<Rightarrow>
          res\<lparr>res_status := 500,
              res_body := Some (Failure ''INTERNAL_ERROR''
                (if node_env = ''production'' then ''An unexpected error occurred'' else message))\<rparr>)"

section \<open>POST /auth/refresh (modules/identity/routes.ts)\<close>

text \<open>
  The middleware chain of the route: \<open>authenticate\<close>, then the handler; an error
  passed to \<open>next\<close> reaches \<open>errorHandler\<close>. The middleware and the service call
  are two calls, each with its own clock reading: \<open>rt\<close> for \<open>authenticate\<close>
  and \<open>rt'\<close> for \<open>refreshSession\<close>.
\<close>

definition post_auth_refresh :: "string \<Rightarrow> runtime \<Rightarrow> runtime \<Rightarrow> token option \<Rightarrow> store \<Rightarrow> store \<times> response" where
  "post_auth_refresh node_env rt rt' cookie s =
     (case authenticate rt cookie s of
        Inl e \<Rightarrow> (s, errorHandler node_env e res0)
      | Inr ctx \<Rightarrow>
          (case refreshSession rt' (au_sessionId (ac_user ctx)) s of
             (s1, Inl e) \<Rightarrow> (s1, errorHandler node_env e res0)
           | (s1, Inr None) \<Rightarrow>
               (s1, res0\<lparr>res_cookies := [ClearCookie ''auth_token''], res_status := 401,
                         res_body := Some (Failure ''SESSION_EXPIRED'' ''Session expired'')\<rparr>)
           | (s1, Inr (Some result)) \<Rightarrow>
               (s1, res0\<lparr>res_cookies := [SetCookie ''auth_token'' (ar_token result)],
                         res_body := Some (Success (AuthData (ar_user_id result) (ar_user_email result)
                                                      (ar_csrfToken result) (ar_expiresAt result)))\<rparr>)))"

section \<open>The two other write groups (modules/profile/index.ts, the location routes)\<close>

text \<open>
  The schema (prisma/schema.prisma) is not among the sources, and the code shows no
  key of the consent and operating-hour tables beyond the consent id. What the
  database accepts on an insert into these two tables is therefore a parameter:
  \<open>consent_ok\<close> and \<open>operatingHours_ok\<close> say whether the new rows satisfy the
  schema's constraints in the current store.
\<close>

record schema_checks =
  consent_ok :: "store \<Rightarrow> Consent \<Rightarrow> bool"
  operatingHours_ok :: "store \<Rightarrow> OperatingHour list \<Rightarrow> bool"

record ConsentInput =
  ci_type :: string
  ci_granted :: bool
  ci_version :: string

record OperatingHourInput =
  ohi_dayOfWeek :: int
  ohi_openTime :: string
  ohi_closeTime :: string
  ohi_isOpen :: bool

text \<open>\<open>prisma.consent.updateMany\<close> with \<open>where: {profileId, type, revokedAt: null}\<close>.\<close>

definition consent_updateMany_revoke :: "string \<Rightarrow> string \<Rightarrow> int \<Rightarrow> store \<Rightarrow> store" where
  "consent_updateMany_revoke profileId type revokedAt s =
     s\<lparr>consents :=
         map (\<lambda>c. if consent_profileId c = profileId \<and> consent_type c = type
                       \<and> consent_revokedAt c = None
                   then c\<lparr>consent_revokedAt := Some revokedAt\<rparr> else c)
             (consents s)\<rparr>"

definition consent_create :: "schema_checks \<Rightarrow> Consent \<Rightarrow> store \<Rightarrow> error + store" where
  "consent_create schema row s =
     (if find (\<lambda>c. consent_id c = consent_id row) (consents s) \<noteq> None
      then Inl (OtherError ''Unique constraint failed'')
      else if \<not> consent_ok schema s row
      then Inl (OtherError ''Constraint failed'')
      else Inr (s\<lparr>consents := consents s @ [row]\<rparr>))"

definition operatingHour_deleteMany :: "string \<Rightarrow> store \<Rightarrow> error + store" where
  "operatingHour_deleteMany salesInstanceId s =
     Inr (s\<lparr>operatingHours :=
              filter (\<lambda>h. oh_salesInstanceId h \<noteq> salesInstanceId) (operatingHours s)\<rparr>)"

definition operatingHour_createMany :: "schema_checks \<Rightarrow> OperatingHour list \<Rightarrow> store \<Rightarrow> error + store" where
  "operatingHour_createMany schema rows s =
     (if \<not> operatingHours_ok schema s rows
      then Inl (OtherError ''Constraint failed'')
      else Inr (s\<lparr>operatingHours := operatingHours s @ rows\<rparr>))"

text \<open>
  POST /profile/consents. The body is the result of \<open>consentSchema.parse\<close>
  (None when it throws). The revocation and the insert are two awaited calls.
\<close>

definition post_profile_consents ::
  "string \<Rightarrow> schema_checks \<Rightarrow> runtime \<Rightarrow> token option \<Rightarrow> request_meta \<Rightarrow> ConsentInput option \<Rightarrow> store \<Rightarrow> store \<times> response" where
  "post_profile_consents node_env schema rt cookie req body s =
     (case authenticate rt cookie s of
        Inl e \<Rightarrow> (s, errorHandler node_env e res0)
      | Inr ctx \<Rightarrow>
          (case body of
             None \<Rightarrow> (s, errorHandler node_env ZodError res0)
           | Some input \<Rightarrow>
               (case profile_findUnique_userId (au_id (ac_user ctx)) s of
                  None \<Rightarrow> (s, errorHandler node_env (NotFoundError ''Profile'') res0)
                | Some profile \<Rightarrow>
                    let s1 = consent_updateMany_revoke (profile_id profile) (ci_type input) (rt_now rt) s;
                        consent = \<lparr>consent_id = rt_new_consentId rt,
                                   consent_profileId = profile_id profile,
                                   consent_type = ci_type input,
                                   consent_granted = ci_granted input,
                                   consent_grantedAt = rt_now rt,
                                   consent_version = ci_version input,
                                   consent_ipAddress = req_ip req,
                                   consent_revokedAt = None\<rparr>
                    in (case consent_create schema consent s1 of
                          Inl e \<Rightarrow> (s1, errorHandler node_env e res0)
                        | Inr s2 \<Rightarrow>
                            (createAuditLog (Some (au_id (ac_user ctx))) ''consent.update''
                               (Some ''consent'') (Some (consent_id consent)) (Some req) s2,
                             res0\<lparr>res_body := Some (Success (ConsentData consent))\<rparr>)))))"

text \<open>
  PUT /sales-instances/:id/hours. The body is the result of
  \<open>z.array(operatingHourSchema).parse\<close> (None when it throws). The delete and
  the insert are one \<open>prisma.$transaction\<close>; \<open>params_id\<close> is
  \<open>req.params.id\<close>.
\<close>

definition put_sales_instance_hours ::
  "string \<Rightarrow> schema_checks \<Rightarrow> runtime \<Rightarrow> token option \<Rightarrow> string \<Rightarrow> OperatingHourInput list option \<Rightarrow> store \<Rightarrow> store \<times> response" where
  "put_sales_instance_hours node_env schema rt cookie params_id body s =
     (case authenticate rt cookie s of
        Inl e \<Rightarrow> (s, errorHandler node_env e res0)
      | Inr ctx \<Rightarrow>
          (case requirePermission
                  [\<lparr>pc_permission = ''sales_instance.update'', pc_scope = None, pc_organizationId = None\<rparr>]
                  (Some (ac_user ctx)) of
             Inl e \<Rightarrow> (s, errorHandler node_env e res0)
           | Inr ok \<Rightarrow>
               (case body of
                  None \<Rightarrow> (s, errorHandler node_env ZodError res0)
                | Some hours \<Rightarrow>
                    (case prisma_transaction
                            [operatingHour_deleteMany params_id,
                             operatingHour_createMany schema
                               (map (\<lambda>h. \<lparr>oh_salesInstanceId = params_id, oh_dayOfWeek = ohi_dayOfWeek h,
                                          oh_openTime = ohi_openTime h, oh_closeTime = ohi_closeTime h,
                                          oh_isOpen = ohi_isOpen h\<rparr>) hours)] s of
                       (s1, Inl e) \<Rightarrow> (s1, errorHandler node_env e res0)
                     | (s1, Inr u) \<Rightarrow>
                         (s1, res0\<lparr>res_body := Some (Success (HoursData
                                  (filter (\<lambda>h. oh_salesInstanceId h = params_id) (operatingHours s1))))\<rparr>)))))"

section \<open>Example data\<close>

definition menu_update :: Permission where
  "menu_update = \<lparr>permission_id = ''p1'', permission_name = ''menu.update''\<rparr>"

definition franchise_owner :: Role where
  "franchise_owner = \<lparr>role_id = ''r1'', role_name = ''franchise_owner'', role_domain = ''FRANCHISE''\<rparr>"

text \<open>An identity whose only role-assignment is global and grants menu.update unscoped.\<close>

definition global_owner :: AuthenticatedUser where
  "global_owner =
     \<lparr>au_id = ''u1'', au_email = ''a@b.com'', au_sessionId = ''s1'',
      au_roles = [\<lparr>ra_role = franchise_owner, ra_organizationId = None,
                   ra_permissions = [\<lparr>rp_permission = menu_update, rp_scope = None\<rparr>]\<rparr>]\<rparr>"

text \<open>The same grant held in organization org2.\<close>

definition org2_owner :: AuthenticatedUser where
  "org2_owner =
     \<lparr>au_id = ''u1'', au_email = ''a@b.com'', au_sessionId = ''s1'',
      au_roles = [\<lparr>ra_role = franchise_owner, ra_organizationId = Some ''org2'',
                   ra_permissions = [\<lparr>rp_permission = menu_update, rp_scope = None\<rparr>]\<rparr>]\<rparr>"

text \<open>
  A runtime for the examples: the clock at 1000 ms, a secret, the default credential
  lifetime of 7 days, a server in a zone without offset, a lower-casing that folds
  the letters A to Z, and a toy password hash. \<open>rt_at t\<close> is the same runtime
  with both clock readings at \<open>t\<close>.
\<close>

definition lower_char :: "char \<Rightarrow> char" where
  "lower_char c =
     (let n = (of_char c :: nat) in if 65 \<le> n \<and> n \<le> 90 then char_of (n + 32) else c)"

definition ascii_toLowerCase :: "string \<Rightarrow> string" where
  "ascii_toLowerCase = map lower_char"

definition secret0 :: string where
  "secret0 = ''0123456789abcdef0123456789abcdef''"

definition rt0 :: runtime where
  "rt0 = \<lparr>rt_now = 1000, rt_signedAt = 1000,
          rt_new_userId = ''u9'', rt_new_profileId = ''p9'',
          rt_new_sessionId = ''s9'', rt_new_consentId = ''c9'',
          rt_random_token = ''t9'', rt_random_csrfToken = ''x9'',
          rt_JWT_SECRET = secret0, rt_JWT_EXPIRES_IN = 604800,
          rt_LocalTZA = (\<lambda>t isUTC. 0),
          rt_toLowerCase = ascii_toLowerCase,
          rt_hashPassword = (\<lambda>pw. ''h:'' @ pw),
          rt_verifyPassword = (\<lambda>pw h. h = ''h:'' @ pw)\<rparr>"

definition rt_at :: "int \<Rightarrow> runtime" where
  "rt_at t = rt0\<lparr>rt_now := t, rt_signedAt := t\<rparr>"

definition store0 :: store where
  "store0 = \<lparr>users = [], profiles = [], sessions = [], roles = [], userRoleAssignments = [],
             rolePermissions = [], permissions = [], permissionScopes = [], auditLogs = [],
             consents = [], operatingHours = []\<rparr>"

text \<open>
  An active user, a deactivated user, and one session of each that expires at
  5000 ms, with the credentials that were signed for them (they expire at 5 s).
\<close>

definition alice :: User where
  "alice = \<lparr>user_id = ''u1'', user_email = ''a@b.com'', user_passwordHash = ''h:Secret123!'',
            user_isActive = True, user_lastLoginAt = None\<rparr>"

definition bob :: User where
  "bob = \<lparr>user_id = ''u2'', user_email = ''bob@b.com'', user_passwordHash = ''h:Secret123!'',
          user_isActive = False, user_lastLoginAt = None\<rparr>"

definition session1 :: Session where
  "session1 = \<lparr>session_id = ''s1'', session_userId = ''u1'', session_token = ''t1'',
               session_csrfToken = ''x1'', session_userAgent = None, session_ipAddress = None,
               session_expiresAt = 5000\<rparr>"

definition session2 :: Session where
  "session2 = \<lparr>session_id = ''s2'', session_userId = ''u2'', session_token = ''t2'',
               session_csrfToken = ''x2'', session_userAgent = None, session_ipAddress = None,
               session_expiresAt = 5000\<rparr>"

definition jwt1 :: token where
  "jwt1 = Jwt \<lparr>jwt_userId = ''u1'', jwt_sessionId = ''s1''\<rparr> (- 604795) 5 secret0"

definition jwt2 :: token where
  "jwt2 = Jwt \<lparr>jwt_userId = ''u2'', jwt_sessionId = ''s2''\<rparr> (- 604795) 5 secret0"

definition store1 :: store where
  "store1 = store0\<lparr>users := [alice, bob], sessions := [session1, session2]\<rparr>"

text \<open>What \<open>authenticate\<close> attaches for alice's session.\<close>

definition alice_ctx :: auth_context where
  "alice_ctx = \<lparr>ac_user = \<lparr>au_id = ''u1'', au_email = ''a@b.com'', au_sessionId = ''s1'', au_roles = []\<rparr>,
                ac_session = session1, ac_csrfToken = ''x1''\<rparr>"

text \<open>
  The sessions that \<open>createSession\<close> inserts at time 1000 for the two users, with
  the expiry 1000 + 604800000, and their credentials.
\<close>

definition session9 :: Session where
  "session9 = \<lparr>session_id = ''s9'', session_userId = ''u1'', session_token = ''t9'',
               session_csrfToken = ''x9'', session_userAgent = None, session_ipAddress = None,
               session_expiresAt = 604801000\<rparr>"

definition bob_session9 :: Session where
  "bob_session9 = session9\<lparr>session_userId := ''u2''\<rparr>"

definition jwt9 :: token where
  "jwt9 = Jwt \<lparr>jwt_userId = ''u1'', jwt_sessionId = ''s9''\<rparr> 1 604801 secret0"

definition bob_jwt9 :: token where
  "bob_jwt9 = Jwt \<lparr>jwt_userId = ''u2'', jwt_sessionId = ''s9''\<rparr> 1 604801 secret0"

text \<open>A registration request for an address that is not yet in \<open>store1\<close>.\<close>

definition carol_input :: RegisterInput where
  "carol_input = \<lparr>ri_email = ''Carol@B.com'', ri_password = ''Secret123!'',
                  ri_firstName = Some ''Carol'', ri_lastName = None\<rparr>"

text \<open>
  A store for the two write groups of the profile and location routes: alice has a
  profile with an unrevoked marketing consent, holds sales_instance.update through a
  global role, and the sales instance si1 has one operating hour. The example schema
  limits a consent's version to eight characters and allows one row per day of the
  week in one insert.
\<close>

definition alice_profile :: Profile where
  "alice_profile = \<lparr>profile_id = ''p1'', profile_userId = ''u1'',
                    profile_firstName = Some ''Alice'', profile_lastName = None\<rparr>"

definition consent1 :: Consent where
  "consent1 = \<lparr>consent_id = ''c1'', consent_profileId = ''p1'', consent_type = ''marketing'',
               consent_granted = True, consent_grantedAt = 500, consent_version = ''v1'',
               consent_ipAddress = None, consent_revokedAt = None\<rparr>"

definition monday :: OperatingHour where
  "monday = \<lparr>oh_salesInstanceId = ''si1'', oh_dayOfWeek = 1, oh_openTime = ''09:00'',
             oh_closeTime = ''17:00'', oh_isOpen = True\<rparr>"

definition sales_instance_update :: Permission where
  "sales_instance_update = \<lparr>permission_id = ''p2'', permission_name = ''sales_instance.update''\<rparr>"

definition store2 :: store where
  "store2 = store1\<lparr>profiles := [alice_profile], consents := [consent1],
                   roles := [franchise_owner], permissions := [sales_instance_update],
                   rolePermissions := [\<lparr>rpr_roleId = ''r1'', rpr_permissionId = ''p2'', rpr_scopeId = None\<rparr>],
                   userRoleAssignments := [\<lparr>ura_userId = ''u1'', ura_roleId = ''r1'', ura_organizationId = None\<rparr>],
                   operatingHours := [monday]\<rparr>"

definition strict_schema :: schema_checks where
  "strict_schema = \<lparr>consent_ok = (\<lambda>s c. length (consent_version c) \<le> 8),
                    operatingHours_ok = (\<lambda>s rows. distinct (map oh_dayOfWeek rows))\<rparr>"

definition req0 :: request_meta where
  "req0 = \<lparr>req_ip = Some ''10.0.0.1'', req_userAgent = None\<rparr>"

section \<open>Properties of the authorization gate\<close>

lemma list_ex_iff_Bex: "list_ex P xs \<longleftrightarrow> (\<exists>x\<in>set xs. P x)"
  by (simp add: list_ex_iff)

lemma hasPermission_single:
  "hasPermission [check] user \<longleftrightarrow> (\<exists>ra\<in>set (au_roles user). roleSatisfies check ra)"
  by (simp add: hasPermission_def list_ex_iff)

lemma roleSatisfies_org:
  assumes "pc_organizationId check = Some org" and "org \<noteq> []"
  shows "roleSatisfies check ra \<longleftrightarrow>
           ra_organizationId ra = Some org \<and> (\<exists>perm\<in>set (ra_permissions ra). permMatches check perm)"
  using assms by (auto simp: roleSatisfies_def truthy_def list_ex_iff)

text \<open>
  C1 (as written). A requirement whose organizationId is set is claimed to be denied
  to every identity that holds no role-assignment of exactly that organization. The
  guard of the code is \<open>check.organizationId && ...\<close>, so an organizationId that
  is set to the empty string is falsy and switches the organization test off: the
  global assignment of \<open>global_owner\<close> passes the gate.
\<close>

theorem requirePermission_empty_org_counterexample:
  "pc_organizationId \<lparr>pc_permission = ''menu.update'', pc_scope = None, pc_organizationId = Some ''''\<rparr> = Some ''''
   \<and> map ra_organizationId (au_roles global_owner) = [None]
   \<and> requirePermission
        [\<lparr>pc_permission = ''menu.update'', pc_scope = None, pc_organizationId = Some ''''\<rparr>]
        (Some global_owner) = Inr ()"
  by (simp add: requirePermission_def hasPermission_def roleSatisfies_def permMatches_def
      truthy_def global_owner_def menu_update_def)

text \<open>
  C1 (amended). For a requirement whose organizationId is a non-empty string
  \<open>org\<close>, the gate lets an identity pass exactly when one of its role-assignments
  has organizationId equal to \<open>org\<close> and grants a matching permission. Hence an
  identity none of whose assignments is in \<open>org\<close> (another organization, or a
  global assignment with organizationId null) is rejected with Forbidden, whatever
  its roles grant.
\<close>

theorem requirePermission_org_scoped:
  assumes "pc_organizationId check = Some org" and "org \<noteq> []"
  shows "(requirePermission [check] (Some user) = Inr () \<longleftrightarrow>
            (\<exists>ra\<in>set (au_roles user). ra_organizationId ra = Some org
                \<and> (\<exists>perm\<in>set (ra_permissions ra). permMatches check perm)))
       \<and> ((\<forall>ra\<in>set (au_roles user). ra_organizationId ra \<noteq> Some org) \<longrightarrow>
            requirePermission [check] (Some user) = Inl (ForbiddenError ''Insufficient permissions''))"
  using assms
  by (auto simp: requirePermission_def hasPermission_single roleSatisfies_org)

theorem requirePermission_org_scoped_witness:
  "requirePermission
     [\<lparr>pc_permission = ''menu.update'', pc_scope = None, pc_organizationId = Some ''org1''\<rparr>]
     (Some org2_owner) = Inl (ForbiddenError ''Insufficient permissions'')
   \<and> requirePermission
     [\<lparr>pc_permission = ''menu.update'', pc_scope = None, pc_organizationId = Some ''org1''\<rparr>]
     (Some global_owner) = Inl (ForbiddenError ''Insufficient permissions'')"
  using requirePermission_org_scoped
          [of "\<lparr>pc_permission = ''menu.update'', pc_scope = None, pc_organizationId = Some ''org1''\<rparr>"
              "''org1''" org2_owner]
        requirePermission_org_scoped
          [of "\<lparr>pc_permission = ''menu.update'', pc_scope = None, pc_organizationId = Some ''org1''\<rparr>"
              "''org1''" global_owner]
  by (simp add: org2_owner_def global_owner_def)

text \<open>
  C2 (as written). A grant with a null scope is claimed to satisfy a requirement that
  names a scope. The code compares \<open>perm.scope === check.scope\<close> whenever the
  required scope is truthy, and null is not equal to any string:
  \<open>global_owner\<close> holds menu.update with a null scope and is refused when the
  scope \<open>self\<close> is required.
\<close>

theorem requirePermission_null_scope_counterexample:
  "map (\<lambda>ra. map (\<lambda>perm. (permission_name (rp_permission perm), rp_scope perm)) (ra_permissions ra))
       (au_roles global_owner) = [[(''menu.update'', None)]]
   \<and> requirePermission
        [\<lparr>pc_permission = ''menu.update'', pc_scope = Some ''self'', pc_organizationId = None\<rparr>]
        (Some global_owner) = Inl (ForbiddenError ''Insufficient permissions'')"
  by (simp add: requirePermission_def hasPermission_def roleSatisfies_def permMatches_def
      truthy_def global_owner_def menu_update_def)

lemma permMatches_iff:
  "permMatches check perm \<longleftrightarrow>
     permission_name (rp_permission perm) = pc_permission check
     \<and> (case pc_scope check of
          None \<Rightarrow> True
        | Some S \<Rightarrow> S = [] \<or> rp_scope perm = Some S)"
  by (auto simp: permMatches_def truthy_def Let_def split: option.splits)

text \<open>
  C2 (amended). The resolver matches scope identity only. When the requirement's
  scope is unset or the empty string, a grant satisfies it exactly when the
  permission name is equal, whatever the grant's scope is. When the requirement
  names a non-empty scope S, a grant satisfies it exactly when the permission name
  is equal and the grant's scope is S itself; a null-scope grant does not, and an
  identity whose grants of the permission all have a null scope is refused with
  Forbidden.
\<close>

theorem requirePermission_scope_identity:
  "((pc_scope check = None \<or> pc_scope check = Some []) \<longrightarrow>
        (permMatches check perm \<longleftrightarrow>
           permission_name (rp_permission perm) = pc_permission check))
   \<and> (pc_scope check = Some S \<and> S \<noteq> [] \<longrightarrow>
        (permMatches check perm \<longleftrightarrow>
           permission_name (rp_permission perm) = pc_permission check \<and> rp_scope perm = Some S))
   \<and> (pc_scope check = Some S \<and> S \<noteq> []
        \<and> (\<forall>ra\<in>set (au_roles user). \<forall>p\<in>set (ra_permissions ra).
              permission_name (rp_permission p) = pc_permission check \<longrightarrow> rp_scope p = None)
      \<longrightarrow> requirePermission [check] (Some user) = Inl (ForbiddenError ''Insufficient permissions''))"
proof (intro conjI impI)
  assume "pc_scope check = None \<or> pc_scope check = Some []"
  then show "permMatches check perm \<longleftrightarrow>
      permission_name (rp_permission perm) = pc_permission check"
    by (auto simp: permMatches_iff)
next
  assume "pc_scope check = Some S \<and> S \<noteq> []"
  then show "permMatches check perm \<longleftrightarrow>
      permission_name (rp_permission perm) = pc_permission check \<and> rp_scope perm = Some S"
    by (simp add: permMatches_iff)
next
  assume a: "pc_scope check = Some S \<and> S \<noteq> []
        \<and> (\<forall>ra\<in>set (au_roles user). \<forall>p\<in>set (ra_permissions ra).
              permission_name (rp_permission p) = pc_permission check \<longrightarrow> rp_scope p = None)"
  have "\<not> roleSatisfies check ra" if "ra \<in> set (au_roles user)" for ra
  proof -
    have "\<not> permMatches check p" if "p \<in> set (ra_permissions ra)" for p
      using a that \<open>ra \<in> set (au_roles user)\<close> by (auto simp: permMatches_iff)
    then show ?thesis by (auto simp: roleSatisfies_def list_ex_iff)
  qed
  then have "\<not> hasPermission [check] user" by (simp add: hasPermission_single)
  then show "requirePermission [check] (Some user) = Inl (ForbiddenError ''Insufficient permissions'')"
    by (simp add: requirePermission_def)
qed

theorem requirePermission_scope_identity_witness:
  "permMatches \<lparr>pc_permission = ''menu.update'', pc_scope = None, pc_organizationId = None\<rparr>
     \<lparr>rp_permission = menu_update, rp_scope = None\<rparr>
   \<and> permMatches \<lparr>pc_permission = ''menu.update'', pc_scope = Some [], pc_organizationId = None\<rparr>
     \<lparr>rp_permission = menu_update, rp_scope = Some ''self''\<rparr>
   \<and> \<not> permMatches \<lparr>pc_permission = ''menu.update'', pc_scope = Some ''self'', pc_organizationId = None\<rparr>
     \<lparr>rp_permission = menu_update, rp_scope = None\<rparr>
   \<and> permMatches \<lparr>pc_permission = ''menu.update'', pc_scope = Some ''self'', pc_organizationId = None\<rparr>
     \<lparr>rp_permission = menu_update, rp_scope = Some ''self''\<rparr>
   \<and> requirePermission
        [\<lparr>pc_permission = ''menu.update'', pc_scope = Some ''self'', pc_organizationId = None\<rparr>]
        (Some global_owner) = Inl (ForbiddenError ''Insufficient permissions'')"
  using requirePermission_scope_identity
          [of "\<lparr>pc_permission = ''menu.update'', pc_scope = None, pc_organizationId = None\<rparr>"
              "\<lparr>rp_permission = menu_update, rp_scope = None\<rparr>" "''self''" global_owner]
        requirePermission_scope_identity
          [of "\<lparr>pc_permission = ''menu.update'', pc_scope = Some [], pc_organizationId = None\<rparr>"
              "\<lparr>rp_permission = menu_update, rp_scope = Some ''self''\<rparr>" "''self''" global_owner]
        requirePermission_scope_identity
          [of "\<lparr>pc_permission = ''menu.update'', pc_scope = Some ''self'', pc_organizationId = None\<rparr>"
              "\<lparr>rp_permission = menu_update, rp_scope = None\<rparr>" "''self''" global_owner]
        requirePermission_scope_identity
          [of "\<lparr>pc_permission = ''menu.update'', pc_scope = Some ''self'', pc_organizationId = None\<rparr>"
              "\<lparr>rp_permission = menu_update, rp_scope = Some ''self''\<rparr>" "''self''" global_owner]
  by (simp add: global_owner_def menu_update_def)

text \<open>
  C9. A gate built from an empty list of requirements refuses every identity with
  Forbidden: \<open>[].some(...)\<close> is false, whatever the identity holds.
\<close>

theorem requirePermission_no_checks:
  "requirePermission [] (Some user) = Inl (ForbiddenError ''Insufficient permissions'')"
  by (simp add: requirePermission_def hasPermission_def)

theorem requirePermission_no_checks_witness:
  "requirePermission [] (Some global_owner) = Inl (ForbiddenError ''Insufficient permissions'')"
  using requirePermission_no_checks [of global_owner] by simp

section \<open>Properties of the credential flows\<close>

lemma ascii_toLowerCase_examples:
  "ascii_toLowerCase ''a@b.com'' = ''a@b.com''"
  "ascii_toLowerCase ''bob@b.com'' = ''bob@b.com''"
  "ascii_toLowerCase ''nobody@b.com'' = ''nobody@b.com''"
  "ascii_toLowerCase ''Carol@B.com'' = ''carol@b.com''"
  by code_simp+

lemmas example_defs = store1_def store0_def session1_def session2_def session9_def bob_session9_def
  alice_def bob_def rt0_def rt_at_def secret0_def jwt1_def jwt2_def jwt9_def bob_jwt9_def

text \<open>
  A deactivated user never reaches the password check: the guard
  \<open>if (!user.isActive)\<close> rejects the login first, with a message of its own.
\<close>

lemma login_deactivated:
  assumes "user_findUnique_email (rt_toLowerCase rt (li_email input)) s = Some user"
      and "\<not> user_isActive user"
  shows "login rt input req s = (s, Inl (UnauthorizedError ''Account is deactivated''))"
  using assms by (simp add: login_def)

text \<open>
  C7. A login whose email matches no user, and a login in which the password
  verification fails (the email matches a user, the account is active so that
  \<open>verifyPassword\<close> is called, and it returns false), throw the same error: an
  UnauthorizedError with the message ``Invalid email or password''. The two runs
  cannot be told apart by the message text, and both leave the store unchanged.
\<close>

theorem login_failure_message:
  "(user_findUnique_email (rt_toLowerCase rt (li_email input)) s = None \<longrightarrow>
      login rt input req s = (s, Inl (UnauthorizedError ''Invalid email or password'')))
   \<and> (user_findUnique_email (rt_toLowerCase rt' (li_email input')) s' = Some user
        \<and> user_isActive user
        \<and> \<not> rt_verifyPassword rt' (li_password input') (user_passwordHash user) \<longrightarrow>
      login rt' input' req' s' = (s', Inl (UnauthorizedError ''Invalid email or password'')))"
  by (simp add: login_def)

theorem login_failure_message_witness:
  "user_findUnique_email (rt_toLowerCase rt0 ''nobody@b.com'') store1 = None
   \<and> login rt0 \<lparr>li_email = ''nobody@b.com'', li_password = ''wrong''\<rparr> None store1
     = (store1, Inl (UnauthorizedError ''Invalid email or password''))
   \<and> user_findUnique_email (rt_toLowerCase rt0 ''a@b.com'') store1 = Some alice
   \<and> user_isActive alice
   \<and> \<not> rt_verifyPassword rt0 ''wrong'' (user_passwordHash alice)
   \<and> login rt0 \<lparr>li_email = ''a@b.com'', li_password = ''wrong''\<rparr> None store1
     = (store1, Inl (UnauthorizedError ''Invalid email or password''))"
  using login_failure_message
          [of rt0 "\<lparr>li_email = ''nobody@b.com'', li_password = ''wrong''\<rparr>" store1 None
              rt0 "\<lparr>li_email = ''a@b.com'', li_password = ''wrong''\<rparr>" store1 alice None]
  by (simp add: user_findUnique_email_def ascii_toLowerCase_examples example_defs)

section \<open>Properties of the error responses\<close>

lemma errorHandler_cookies: "res_cookies (errorHandler node_env err res) = res_cookies res"
  by (cases err) (simp_all add: errorHandler_def)

lemma authenticate_alice: "authenticate rt0 (Some jwt1) store1 = Inr alice_ctx"
  by (simp add: authenticate_def jwt_verify_def session_findUnique_def user_findUnique_id_def
      heldRoles_def List.map_filter_simps alice_ctx_def example_defs)

text \<open>
  The sibling path: when the request has passed \<open>authenticate\<close> and
  \<open>refreshSession\<close> then returns null, the handler of POST /auth/refresh answers
  401 SESSION_EXPIRED itself and clears the cookie auth_token. The error handler,
  which answers every thrown error, never touches the cookies.
\<close>

lemma post_auth_refresh_expired:
  assumes "authenticate rt cookie s = Inr ctx"
      and "refreshSession rt' (au_sessionId (ac_user ctx)) s = (s1, Inr None)"
  shows "post_auth_refresh node_env rt rt' cookie s =
           (s1, \<lparr>res_status = 401, res_cookies = [ClearCookie ''auth_token''],
                 res_body = Some (Failure ''SESSION_EXPIRED'' ''Session expired'')\<rparr>)"
  using assms by (simp add: post_auth_refresh_def res0_def)

lemma post_auth_refresh_expired_example:
  "post_auth_refresh ''production'' rt0 (rt_at 6000) (Some jwt1) store1 =
     (store1, \<lparr>res_status = 401, res_cookies = [ClearCookie ''auth_token''],
                res_body = Some (Failure ''SESSION_EXPIRED'' ''Session expired'')\<rparr>)"
proof -
  have "refreshSession (rt_at 6000) (au_sessionId (ac_user alice_ctx)) store1 = (store1, Inr None)"
    by (simp add: refreshSession_def session_findUnique_def alice_ctx_def example_defs)
  with authenticate_alice show ?thesis by (rule post_auth_refresh_expired)
qed

text \<open>
  C8. Every response that fails with Unauthenticated should clear the cookie
  auth_token. At time 6000 the cookie of alice's session is stale (the session and
  its credential expired at 5000); \<open>authenticate\<close> throws an UnauthorizedError,
  \<open>errorHandler\<close> answers 401 UNAUTHORIZED, and the response carries no cookie
  operation: the stale cookie stays in place.
\<close>

theorem stale_cookie_not_cleared:
  "post_auth_refresh ''production'' (rt_at 6000) (rt_at 6000) (Some jwt1) store1
     = (store1, \<lparr>res_status = 401, res_cookies = [],
                 res_body = Some (Failure ''UNAUTHORIZED'' ''Invalid or expired token'')\<rparr>)"
  by (simp add: post_auth_refresh_def authenticate_def jwt_verify_def errorHandler_def
      UnauthorizedError_def res0_def example_defs)

section \<open>Properties of the session manager\<close>

lemma find_append_new: "find P xs = None \<Longrightarrow> P x \<Longrightarrow> find P (xs @ [x]) = Some x"
  by (induction xs) (auto split: if_splits)

lemma find_append_old: "find P xs = Some x \<Longrightarrow> find P (xs @ ys) = Some x"
  by (induction xs) (auto split: if_splits)


lemma find_filter_excluded: "find (\<lambda>x. f x = k) (filter (\<lambda>x. f x \<noteq> k) xs) = None"
  by (induction xs) auto

lemma find_filter_other:
  "j \<noteq> k \<Longrightarrow> find (\<lambda>x. f x = j) (filter (\<lambda>x. f x \<noteq> k) xs) = find (\<lambda>x. f x = j) xs"
  by (induction xs) auto

lemma jwt_verify_sign:
  "jwt_verify (jwt_sign payload secret expiresIn signedAt) secret' now =
     (if secret = secret' \<and> now div 1000 < signedAt div 1000 + expiresIn then Some payload else None)"
  by (simp add: jwt_verify_def jwt_sign_def Let_def)

lemma jwt_sign_not_empty: "jwt_sign payload secret expiresIn signedAt \<noteq> Opaque []"
  by (simp add: jwt_sign_def Let_def)

lemma setDate_plus_no_offset:
  "rt_LocalTZA rt = (\<lambda>t isUTC. c) \<Longrightarrow> setDate_plus rt n t = t + n * msPerDay"
  by (simp add: setDate_plus_def UTC_def LocalTime_def)

lemma authenticate_verified:
  assumes "jwt_verify token (rt_JWT_SECRET rt) (rt_now rt) = Some payload"
      and "session_findUnique (jwt_sessionId payload) s = Some session"
      and "user_findUnique_id (session_userId session) s = Some user"
      and "user_isActive user"
  shows "authenticate rt (Some token) s =
           (if session_expiresAt session < rt_now rt
            then Inl (UnauthorizedError ''Session expired or invalid'')
            else Inr \<lparr>ac_user = \<lparr>au_id = user_id user, au_email = user_email user,
                                 au_sessionId = session_id session,
                                 au_roles = heldRoles (user_id user) s\<rparr>,
                      ac_session = session, ac_csrfToken = session_csrfToken session\<rparr>)"
proof -
  have "token \<noteq> Opaque []" using assms(1) by (auto simp: jwt_verify_def)
  then show ?thesis using assms by (simp add: authenticate_def)
qed

lemma authenticate_not_verified:
  assumes "jwt_verify token (rt_JWT_SECRET rt) (rt_now rt) = None" and "token \<noteq> Opaque []"
  shows "authenticate rt (Some token) s = Inl (UnauthorizedError ''Invalid or expired token'')"
  using assms by (simp add: authenticate_def)

lemma authenticate_absent_session:
  assumes "jwt_verify token (rt_JWT_SECRET rt) (rt_now rt) = Some payload"
      and "session_findUnique (jwt_sessionId payload) s = None"
  shows "authenticate rt (Some token) s = Inl (UnauthorizedError ''Session expired or invalid'')"
proof -
  have "token \<noteq> Opaque []" using assms(1) by (auto simp: jwt_verify_def)
  then show ?thesis using assms by (simp add: authenticate_def)
qed

lemma createSession_success:
  assumes "createSession rt userId req s = (s', Inr (session, token))"
  shows "session_findUnique (rt_new_sessionId rt) s = None"
    and "session_id session = rt_new_sessionId rt"
    and "session_userId session = userId"
    and "session_expiresAt session = setDate_plus rt 7 (rt_now rt)"
    and "s' = s\<lparr>sessions := sessions s @ [session]\<rparr>"
    and "token = jwt_sign \<lparr>jwt_userId = userId, jwt_sessionId = rt_new_sessionId rt\<rparr>
                   (rt_JWT_SECRET rt) (rt_JWT_EXPIRES_IN rt) (rt_signedAt rt)"
  using assms
  by (auto simp: createSession_def session_create_def Let_def split: if_splits)

lemma createSession_stored:
  assumes "createSession rt userId req s = (s', Inr (session, token))"
  shows "session_findUnique (session_id session) s' = Some session"
proof -
  note c = createSession_success [OF assms]
  have "find (\<lambda>x. session_id x = rt_new_sessionId rt) (sessions s) = None"
    using c(1) by (simp add: session_findUnique_def)
  then have "find (\<lambda>x. session_id x = rt_new_sessionId rt) (sessions s @ [session]) = Some session"
    by (rule find_append_new) (simp add: c(2))
  then show ?thesis
    by (simp add: session_findUnique_def c(2)) (simp add: c(5))
qed

lemma createSession_users:
  assumes "createSession rt userId req s = (s', Inr (session, token))"
  shows "user_findUnique_id i s' = user_findUnique_id i s"
  using createSession_success(5) [OF assms] by (simp add: user_findUnique_id_def)

lemma createSession_alice:
  "createSession rt0 ''u1'' None store1
     = (store1\<lparr>sessions := [session1, session2, session9]\<rparr>, Inr (session9, jwt9))"
  by (simp add: createSession_def session_create_def session_findUnique_def jwt_sign_def
      setDate_plus_def UTC_def LocalTime_def msPerDay_def Let_def example_defs)

lemma createSession_alice_1500:
  "createSession (rt_at 1500) ''u1'' None store1
     = (store1\<lparr>sessions := [session1, session2, session9\<lparr>session_expiresAt := 604801500\<rparr>]\<rparr>,
        Inr (session9\<lparr>session_expiresAt := 604801500\<rparr>, jwt9))"
  by (simp add: createSession_def session_create_def session_findUnique_def jwt_sign_def
      setDate_plus_def UTC_def LocalTime_def msPerDay_def Let_def example_defs)

text \<open>
  C6 (as written). The session is claimed to be accepted at every instant strictly
  before its expiry T. The credential that \<open>createSession\<close> signs expires in whole
  seconds, JWT_EXPIRES_IN after the second in which it was signed. The session
  created at 1500 ms under the default lifetime of 7 days has T = 604801500, its
  credential expires at 604801 s, and at the instant 604801000, before T,
  \<open>authenticate\<close> rejects it.
\<close>

theorem authenticate_before_expiry_counterexample:
  "createSession (rt_at 1500) ''u1'' None store1
     = (store1\<lparr>sessions := [session1, session2, session9\<lparr>session_expiresAt := 604801500\<rparr>]\<rparr>,
        Inr (session9\<lparr>session_expiresAt := 604801500\<rparr>, jwt9))
   \<and> session_expiresAt (session9\<lparr>session_expiresAt := 604801500\<rparr>) = 604801500
   \<and> rt_now (rt_at 604801000) < 604801500
   \<and> authenticate (rt_at 604801000) (Some jwt9)
        (store1\<lparr>sessions := [session1, session2, session9\<lparr>session_expiresAt := 604801500\<rparr>]\<rparr>)
      = Inl (UnauthorizedError ''Invalid or expired token'')"
  by (simp add: createSession_alice_1500)
     (simp add: authenticate_def jwt_verify_def example_defs)

text \<open>
  C6 (amended). For a session created by \<open>createSession\<close> with expiry T (the
  creation date moved by seven calendar days), an active owner and the credential
  issued with it, \<open>authenticate\<close> accepts at an instant exactly when the instant is
  not after T and the credential has not expired, that is, the second of the instant
  lies before the second of signing plus JWT_EXPIRES_IN. Otherwise it rejects with
  an UnauthorizedError: ``Invalid or expired token'' when the credential has
  expired, ``Session expired or invalid'' when only the row has. With the default
  lifetime of 7 days, T exactly 7 times 24 hours after the creation and the
  credential signed in the second of the creation, it accepts exactly at the instants
  whose second lies before the second of T, and so rejects at every instant greater
  than or equal to T, the instant T included.
\<close>

theorem authenticate_expiry_boundary:
  assumes c: "createSession rt userId req s = (s', Inr (session, token))"
      and u: "user_findUnique_id userId s = Some user" and act: "user_isActive user"
      and k: "rt_JWT_SECRET rt' = rt_JWT_SECRET rt"
  shows "session_expiresAt session = setDate_plus rt 7 (rt_now rt)
       \<and> ((\<exists>ctx. authenticate rt' (Some token) s' = Inr ctx
                 \<and> au_sessionId (ac_user ctx) = session_id session)
            \<longleftrightarrow> rt_now rt' \<le> session_expiresAt session
               \<and> rt_now rt' div 1000 < rt_signedAt rt div 1000 + rt_JWT_EXPIRES_IN rt)
       \<and> (rt_signedAt rt div 1000 + rt_JWT_EXPIRES_IN rt \<le> rt_now rt' div 1000 \<longrightarrow>
            authenticate rt' (Some token) s' = Inl (UnauthorizedError ''Invalid or expired token''))
       \<and> (rt_now rt' div 1000 < rt_signedAt rt div 1000 + rt_JWT_EXPIRES_IN rt
            \<and> session_expiresAt session < rt_now rt' \<longrightarrow>
            authenticate rt' (Some token) s' = Inl (UnauthorizedError ''Session expired or invalid''))
       \<and> (rt_JWT_EXPIRES_IN rt = 604800
            \<and> session_expiresAt session = rt_now rt + 7 * msPerDay
            \<and> rt_signedAt rt div 1000 = rt_now rt div 1000 \<longrightarrow>
            ((\<exists>ctx. authenticate rt' (Some token) s' = Inr ctx)
               \<longleftrightarrow> rt_now rt' div 1000 < session_expiresAt session div 1000)
            \<and> (session_expiresAt session \<le> rt_now rt' \<longrightarrow>
                 authenticate rt' (Some token) s' = Inl (UnauthorizedError ''Invalid or expired token'')))"
proof -
  note cs = createSession_success [OF c]
  let ?payload = "\<lparr>jwt_userId = userId, jwt_sessionId = rt_new_sessionId rt\<rparr>"
  let ?exp = "rt_signedAt rt div 1000 + rt_JWT_EXPIRES_IN rt"
  have v: "jwt_verify token (rt_JWT_SECRET rt') (rt_now rt') =
             (if rt_now rt' div 1000 < ?exp then Some ?payload else None)"
    by (simp add: cs(6) jwt_verify_sign k)
  have ne: "token \<noteq> Opaque []" by (simp add: cs(6) jwt_sign_not_empty)
  have f: "session_findUnique (jwt_sessionId ?payload) s' = Some session"
    using createSession_stored [OF c] cs(2) by simp
  have uu: "user_findUnique_id (session_userId session) s' = Some user"
    using createSession_users [OF c] cs(3) u by simp
  have expired: "authenticate rt' (Some token) s' = Inl (UnauthorizedError ''Invalid or expired token'')"
    if "?exp \<le> rt_now rt' div 1000"
    using that v ne by (intro authenticate_not_verified) simp_all
  have live: "authenticate rt' (Some token) s' =
           (if session_expiresAt session < rt_now rt'
            then Inl (UnauthorizedError ''Session expired or invalid'')
            else Inr \<lparr>ac_user = \<lparr>au_id = user_id user, au_email = user_email user,
                                 au_sessionId = session_id session,
                                 au_roles = heldRoles (user_id user) s'\<rparr>,
                      ac_session = session, ac_csrfToken = session_csrfToken session\<rparr>)"
    if "rt_now rt' div 1000 < ?exp"
    using that v by (intro authenticate_verified [OF _ f uu act]) simp
  have iff: "(\<exists>ctx. authenticate rt' (Some token) s' = Inr ctx
                 \<and> au_sessionId (ac_user ctx) = session_id session)
            \<longleftrightarrow> rt_now rt' \<le> session_expiresAt session \<and> rt_now rt' div 1000 < ?exp"
  proof (cases "rt_now rt' div 1000 < ?exp")
    case True
    then show ?thesis using live by auto
  next
    case False
    then show ?thesis using expired by auto
  qed
  have iff': "(\<exists>ctx. authenticate rt' (Some token) s' = Inr ctx)
            \<longleftrightarrow> rt_now rt' \<le> session_expiresAt session \<and> rt_now rt' div 1000 < ?exp"
  proof (cases "rt_now rt' div 1000 < ?exp")
    case True
    then show ?thesis using live by auto
  next
    case False
    then show ?thesis using expired by auto
  qed
  have dflt: "((\<exists>ctx. authenticate rt' (Some token) s' = Inr ctx)
               \<longleftrightarrow> rt_now rt' div 1000 < session_expiresAt session div 1000)
            \<and> (session_expiresAt session \<le> rt_now rt' \<longrightarrow>
                 authenticate rt' (Some token) s' = Inl (UnauthorizedError ''Invalid or expired token''))"
    if d: "rt_JWT_EXPIRES_IN rt = 604800
            \<and> session_expiresAt session = rt_now rt + 7 * msPerDay
            \<and> rt_signedAt rt div 1000 = rt_now rt div 1000"
  proof -
    have e: "session_expiresAt session div 1000 = ?exp"
      using d by (simp add: msPerDay_def)
    have lt: "rt_now rt' < session_expiresAt session"
      if "rt_now rt' div 1000 < session_expiresAt session div 1000"
      using that by linarith
    have ge: "session_expiresAt session div 1000 \<le> rt_now rt' div 1000"
      if "session_expiresAt session \<le> rt_now rt'"
      using that by (rule zdiv_mono1) simp
    show ?thesis using iff' e lt ge expired by auto
  qed
  show ?thesis using cs(4) iff expired live dflt by auto
qed

theorem authenticate_expiry_boundary_witness:
  "createSession rt0 ''u1'' None store1
     = (store1\<lparr>sessions := [session1, session2, session9]\<rparr>, Inr (session9, jwt9))
   \<and> user_findUnique_id ''u1'' store1 = Some alice \<and> user_isActive alice
   \<and> session_expiresAt session9 = 604801000
   \<and> (\<exists>ctx. authenticate (rt_at 604800999) (Some jwt9)
                (store1\<lparr>sessions := [session1, session2, session9]\<rparr>) = Inr ctx
            \<and> au_sessionId (ac_user ctx) = ''s9'')
   \<and> authenticate (rt_at 604801000) (Some jwt9)
        (store1\<lparr>sessions := [session1, session2, session9]\<rparr>)
      = Inl (UnauthorizedError ''Invalid or expired token'')"
proof -
  have u: "user_findUnique_id ''u1'' store1 = Some alice" and a: "user_isActive alice"
    by (simp_all add: user_findUnique_id_def example_defs)
  have k: "rt_JWT_SECRET (rt_at n) = rt_JWT_SECRET rt0" for n
    by (simp add: rt_at_def)
  show ?thesis
    using authenticate_expiry_boundary [OF createSession_alice u a k [of 604800999]]
          authenticate_expiry_boundary [OF createSession_alice u a k [of 604801000]]
          createSession_alice u a
    by (simp add: session9_def rt0_def rt_at_def)
qed

lemma refreshSession_null:
  "session_findUnique sid s = None \<Longrightarrow> refreshSession rt sid s = (s, Inr None)"
  "session_findUnique sid s = Some session \<Longrightarrow> session_expiresAt session < rt_now rt \<Longrightarrow>
     refreshSession rt sid s = (s, Inr None)"
  by (simp_all add: refreshSession_def)

lemma refreshSession_replaces:
  assumes f: "session_findUnique sid s = Some session"
      and e: "rt_now rt \<le> session_expiresAt session"
      and n: "session_findUnique (rt_new_sessionId rt) s = None"
      and u: "user_findUnique_id (session_userId session) s = Some user"
  shows "refreshSession rt sid s =
           (s\<lparr>sessions := filter (\<lambda>x. session_id x \<noteq> sid)
                              (sessions s @ [createdSessionRow rt (session_userId session)])\<rparr>,
            Inr (Some \<lparr>ar_user_id = user_id user, ar_user_email = user_email user,
                       ar_token = jwt_sign \<lparr>jwt_userId = session_userId session,
                                           jwt_sessionId = rt_new_sessionId rt\<rparr>
                                    (rt_JWT_SECRET rt) (rt_JWT_EXPIRES_IN rt) (rt_signedAt rt),
                       ar_csrfToken = rt_random_csrfToken rt,
                       ar_expiresAt = setDate_plus rt 7 (rt_now rt)\<rparr>))"
proof -
  have old: "find (\<lambda>x. session_id x = sid)
               (sessions s @ [createdSessionRow rt (session_userId session)]) = Some session"
    using f by (simp add: session_findUnique_def find_append_old)
  show ?thesis
    using f e n u old
    by (simp add: refreshSession_def createSession_def session_create_def session_delete_def
        session_findUnique_def createdSessionRow_def Let_def)
qed

lemma refreshSession_Some_only_if:
  assumes "refreshSession rt sid s = (s', Inr (Some result))"
  shows "\<exists>session user. session_findUnique sid s = Some session
           \<and> rt_now rt \<le> session_expiresAt session
           \<and> session_findUnique (rt_new_sessionId rt) s = None
           \<and> user_findUnique_id (session_userId session) s = Some user"
  using assms
  by (auto simp: refreshSession_def createSession_def session_create_def Let_def
      split: option.splits if_splits sum.splits prod.splits)

lemma refreshed_store_lookups:
  fixes userId :: string and rt :: runtime and s :: store and sid :: string
  assumes f: "session_findUnique sid s = Some session"
      and n: "session_findUnique (rt_new_sessionId rt) s = None"
  defines "s' \<equiv> s\<lparr>sessions := filter (\<lambda>x. session_id x \<noteq> sid)
                              (sessions s @ [createdSessionRow rt userId])\<rparr>"
  shows "session_findUnique sid s' = None"
    and "session_findUnique (rt_new_sessionId rt) s' = Some (createdSessionRow rt userId)"
    and "user_findUnique_id i s' = user_findUnique_id i s"
proof -
  show "session_findUnique sid s' = None"
    by (simp del: filter_append add: s'_def session_findUnique_def find_filter_excluded)
  have ne: "rt_new_sessionId rt \<noteq> sid"
    using f n by auto
  have "find (\<lambda>x. session_id x = rt_new_sessionId rt) (sessions s @ [createdSessionRow rt userId])
          = Some (createdSessionRow rt userId)"
    using n by (intro find_append_new) (simp_all add: session_findUnique_def createdSessionRow_def)
  then show "session_findUnique (rt_new_sessionId rt) s' = Some (createdSessionRow rt userId)"
    using ne by (simp del: filter_append add: s'_def session_findUnique_def find_filter_other)
  show "user_findUnique_id i s' = user_findUnique_id i s"
    by (simp add: s'_def user_findUnique_id_def)
qed

lemmas refresh_eval = refreshSession_def createSession_def session_create_def session_delete_def
  session_findUnique_def user_findUnique_id_def jwt_sign_def setDate_plus_def UTC_def
  LocalTime_def msPerDay_def Let_def


lemma refreshSession_bob:
  "refreshSession rt0 ''s2'' store1
     = (store1\<lparr>sessions := [session1, bob_session9]\<rparr>,
        Inr (Some \<lparr>ar_user_id = ''u2'', ar_user_email = ''bob@b.com'', ar_token = bob_jwt9,
                   ar_csrfToken = ''x9'', ar_expiresAt = 604801000\<rparr>))"
  by (simp add: refresh_eval example_defs)

text \<open>
  C5 (as written). The claim makes a session valid iff now < expiresAt and the owner is
  active, and has \<open>refreshSession\<close> return null for every other session. At the
  clock reading 5000, the very expiry of alice's session, a replacement is returned;
  and the session of the deactivated user bob is replaced as well.
\<close>

theorem refreshSession_counterexample:
  "session_findUnique ''s1'' store1 = Some session1
   \<and> session_expiresAt session1 = rt_now (rt_at 5000)
   \<and> snd (refreshSession (rt_at 5000) ''s1'' store1)
       = Inr (Some \<lparr>ar_user_id = ''u1'', ar_user_email = ''a@b.com'',
                    ar_token = Jwt \<lparr>jwt_userId = ''u1'', jwt_sessionId = ''s9''\<rparr> 5 604805 secret0,
                    ar_csrfToken = ''x9'', ar_expiresAt = 604805000\<rparr>)
   \<and> session_findUnique ''s2'' store1 = Some session2
   \<and> user_findUnique_id (session_userId session2) store1 = Some bob
   \<and> \<not> user_isActive bob
   \<and> refreshSession rt0 ''s2'' store1
       = (store1\<lparr>sessions := [session1, bob_session9]\<rparr>,
          Inr (Some \<lparr>ar_user_id = ''u2'', ar_user_email = ''bob@b.com'', ar_token = bob_jwt9,
                     ar_csrfToken = ''x9'', ar_expiresAt = 604801000\<rparr>))"
  by (simp add: refreshSession_bob) (simp add: refresh_eval example_defs)

text \<open>
  C5 (amended). \<open>refreshSession\<close> returns null, as a normal outcome and with the
  store unchanged, when the session is absent or its expiry lies before the clock
  reading. When the session exists and the clock has not passed its expiry (the
  instant of expiry included), the database issues an unused session id and the
  owner's row exists, it returns a replacement: the old row is deleted and the new
  one, expiring seven calendar days later, is stored. It returns a replacement in
  no other case. The owner's \<open>isActive\<close> flag is not read.
\<close>

theorem refreshSession_outcome:
  "(session_findUnique sid s = None \<longrightarrow> refreshSession rt sid s = (s, Inr None))
   \<and> (session_findUnique sid s = Some session \<and> session_expiresAt session < rt_now rt \<longrightarrow>
        refreshSession rt sid s = (s, Inr None))
   \<and> (session_findUnique sid s = Some session \<and> rt_now rt \<le> session_expiresAt session
        \<and> session_findUnique (rt_new_sessionId rt) s = None
        \<and> user_findUnique_id (session_userId session) s = Some user \<longrightarrow>
        (\<exists>s' result. refreshSession rt sid s = (s', Inr (Some result))
           \<and> session_findUnique sid s' = None
           \<and> session_findUnique (rt_new_sessionId rt) s'
               = Some (createdSessionRow rt (session_userId session))
           \<and> ar_expiresAt result = setDate_plus rt 7 (rt_now rt)))
   \<and> (refreshSession rt sid s = (s'', Inr (Some result')) \<longrightarrow>
        (\<exists>old. session_findUnique sid s = Some old \<and> rt_now rt \<le> session_expiresAt old))"
proof (intro conjI impI)
  assume "session_findUnique sid s = None"
  then show "refreshSession rt sid s = (s, Inr None)" by (rule refreshSession_null)
next
  assume "session_findUnique sid s = Some session \<and> session_expiresAt session < rt_now rt"
  then show "refreshSession rt sid s = (s, Inr None)" by (simp add: refreshSession_null)
next
  assume a: "session_findUnique sid s = Some session \<and> rt_now rt \<le> session_expiresAt session
        \<and> session_findUnique (rt_new_sessionId rt) s = None
        \<and> user_findUnique_id (session_userId session) s = Some user"
  then have r: "refreshSession rt sid s =
           (s\<lparr>sessions := filter (\<lambda>x. session_id x \<noteq> sid)
                              (sessions s @ [createdSessionRow rt (session_userId session)])\<rparr>,
            Inr (Some \<lparr>ar_user_id = user_id user, ar_user_email = user_email user,
                       ar_token = jwt_sign \<lparr>jwt_userId = session_userId session,
                                           jwt_sessionId = rt_new_sessionId rt\<rparr>
                                    (rt_JWT_SECRET rt) (rt_JWT_EXPIRES_IN rt) (rt_signedAt rt),
                       ar_csrfToken = rt_random_csrfToken rt,
                       ar_expiresAt = setDate_plus rt 7 (rt_now rt)\<rparr>))"
    by (intro refreshSession_replaces) simp_all
  from a have f: "session_findUnique sid s = Some session"
    and n: "session_findUnique (rt_new_sessionId rt) s = None" by simp_all
  show "\<exists>s' result. refreshSession rt sid s = (s', Inr (Some result))
           \<and> session_findUnique sid s' = None
           \<and> session_findUnique (rt_new_sessionId rt) s'
               = Some (createdSessionRow rt (session_userId session))
           \<and> ar_expiresAt result = setDate_plus rt 7 (rt_now rt)"
    using r refreshed_store_lookups(1,2) [OF f n] by simp
next
  assume "refreshSession rt sid s = (s'', Inr (Some result'))"
  then show "\<exists>old. session_findUnique sid s = Some old \<and> rt_now rt \<le> session_expiresAt old"
    using refreshSession_Some_only_if by blast
qed

theorem refreshSession_outcome_witness:
  "session_findUnique ''zz'' store1 = None
   \<and> refreshSession rt0 ''zz'' store1 = (store1, Inr None)
   \<and> session_findUnique ''s1'' store1 = Some session1
   \<and> session_expiresAt session1 < rt_now (rt_at 6000)
   \<and> refreshSession (rt_at 6000) ''s1'' store1 = (store1, Inr None)
   \<and> rt_now rt0 \<le> session_expiresAt session1
   \<and> session_findUnique (rt_new_sessionId rt0) store1 = None
   \<and> user_findUnique_id (session_userId session1) store1 = Some alice
   \<and> (\<exists>s' result. refreshSession rt0 ''s1'' store1 = (s', Inr (Some result))
          \<and> session_findUnique ''s1'' s' = None
          \<and> session_findUnique ''s9'' s' = Some session9
          \<and> ar_expiresAt result = 604801000)"
proof -
  have 1: "session_findUnique ''zz'' store1 = None"
    and 2: "session_findUnique ''s1'' store1 = Some session1"
    and 3: "session_expiresAt session1 < rt_now (rt_at 6000)"
    and 4: "rt_now rt0 \<le> session_expiresAt session1"
    and 5: "session_findUnique (rt_new_sessionId rt0) store1 = None"
    and 6: "user_findUnique_id (session_userId session1) store1 = Some alice"
    and 7: "createdSessionRow rt0 (session_userId session1) = session9"
    and 8: "rt_new_sessionId rt0 = ''s9''" "setDate_plus rt0 7 (rt_now rt0) = 604801000"
           "rt_new_sessionId (rt_at 6000) = ''s9''"
    by (simp_all add: session_findUnique_def user_findUnique_id_def createdSessionRow_def
        setDate_plus_def UTC_def LocalTime_def msPerDay_def example_defs)
  show ?thesis
    using refreshSession_outcome [of "''zz''" store1 rt0 session1 alice store1
              "\<lparr>ar_user_id = [], ar_user_email = [], ar_token = Opaque [], ar_csrfToken = [], ar_expiresAt = 0\<rparr>"]
          refreshSession_outcome [of "''s1''" store1 "rt_at 6000" session1 alice store1
              "\<lparr>ar_user_id = [], ar_user_email = [], ar_token = Opaque [], ar_csrfToken = [], ar_expiresAt = 0\<rparr>"]
          refreshSession_outcome [of "''s1''" store1 rt0 session1 alice store1
              "\<lparr>ar_user_id = [], ar_user_email = [], ar_token = Opaque [], ar_csrfToken = [], ar_expiresAt = 0\<rparr>"]
          1 2 3 4 5 6
    by (simp add: 7 8)
qed

text \<open>
  Sessions are inserted by \<open>createSession\<close> only, under the id the database
  generates. A session id that is absent stays absent through later session
  creations and refreshes, unless the database issues that very id again.
\<close>

lemma createSession_keeps_absent:
  assumes "session_findUnique sid s = None" and "rt_new_sessionId rt \<noteq> sid"
      and "createSession rt userId req s = (s', r)"
  shows "session_findUnique sid s' = None"
  using assms
  by (auto simp: createSession_def session_create_def session_findUnique_def Let_def find_None_iff
      split: if_splits)

lemma session_delete_keeps_absent:
  assumes "session_findUnique sid s = None" and "session_delete k s = Inr s'"
  shows "session_findUnique sid s' = None"
  using assms
  by (auto simp: session_delete_def session_findUnique_def find_None_iff split: if_splits)

lemma refreshSession_keeps_absent:
  assumes "session_findUnique sid s = None" and "rt_new_sessionId rt \<noteq> sid"
      and "refreshSession rt k s = (s', r)"
  shows "session_findUnique sid s' = None"
proof (cases "session_findUnique k s")
  case None
  then show ?thesis using assms by (simp add: refreshSession_def)
next
  case (Some session)
  show ?thesis
  proof (cases "session_expiresAt session < rt_now rt")
    case True
    then show ?thesis using assms Some by (simp add: refreshSession_def)
  next
    case False
    obtain s1 r1 where c: "createSession rt (session_userId session) None s = (s1, r1)"
      by (cases "createSession rt (session_userId session) None s")
    note a1 = createSession_keeps_absent [OF assms(1,2) c]
    show ?thesis
      using assms(3) Some False c a1 session_delete_keeps_absent [OF a1]
      by (auto simp: refreshSession_def split: sum.splits option.splits prod.splits)
  qed
qed




section \<open>Properties of registration\<close>

lemma register_explicit:
  assumes norole: "role_findUnique_name ''consumer'' s = None"
      and email: "user_findUnique_email (rt_toLowerCase rt (ri_email input)) s = None"
      and fresh: "user_findUnique_id (rt_new_userId rt) s = None"
                 "find (\<lambda>p. profile_id p = rt_new_profileId rt) (profiles s) = None"
                 "profile_findUnique_userId (rt_new_userId rt) s = None"
                 "session_findUnique (rt_new_sessionId rt) s = None"
  shows "register rt input req s =
     (s\<lparr>users := users s @
           [\<lparr>user_id = rt_new_userId rt, user_email = rt_toLowerCase rt (ri_email input),
             user_passwordHash = rt_hashPassword rt (ri_password input),
             user_isActive = default_isActive, user_lastLoginAt = None\<rparr>],
        profiles := profiles s @
           [\<lparr>profile_id = rt_new_profileId rt, profile_userId = rt_new_userId rt,
             profile_firstName = ri_firstName input, profile_lastName = ri_lastName input\<rparr>],
        sessions := sessions s @
           [\<lparr>session_id = rt_new_sessionId rt, session_userId = rt_new_userId rt,
             session_token = rt_random_token rt, session_csrfToken = rt_random_csrfToken rt,
             session_userAgent = (case req of None \<Rightarrow> None | Some r \<Rightarrow> req_userAgent r),
             session_ipAddress = (case req of None \<Rightarrow> None | Some r \<Rightarrow> req_ip r),
             session_expiresAt = setDate_plus rt 7 (rt_now rt)\<rparr>],
        auditLogs := auditLogs s @
           [\<lparr>al_userId = Some (rt_new_userId rt), al_action = ''user.register'',
             al_resource = Some ''user'', al_resourceId = Some (rt_new_userId rt),
             al_ipAddress = (case req of None \<Rightarrow> None | Some r \<Rightarrow> req_ip r),
             al_userAgent = (case req of None \<Rightarrow> None | Some r \<Rightarrow> req_userAgent r)\<rparr>]\<rparr>,
      Inr \<lparr>ar_user_id = rt_new_userId rt, ar_user_email = rt_toLowerCase rt (ri_email input),
           ar_token = jwt_sign \<lparr>jwt_userId = rt_new_userId rt,
                                        jwt_sessionId = rt_new_sessionId rt\<rparr>
                        (rt_JWT_SECRET rt) (rt_JWT_EXPIRES_IN rt) (rt_signedAt rt),
           ar_csrfToken = rt_random_csrfToken rt,
           ar_expiresAt = setDate_plus rt 7 (rt_now rt)\<rparr>)"
  using assms
  by (simp add: register_def user_create_def createSession_def session_create_def
      createAuditLog_def role_findUnique_name_def session_findUnique_def Let_def)

lemma register_errors:
  assumes "role_findUnique_name ''consumer'' s = None"
      and "register rt input req s = (s', Inl e)"
  shows "e = ConflictError ''Email already registered'' \<or> e = OtherError ''Unique constraint failed''"
  using assms
  by (auto simp: register_def user_create_def createSession_def session_create_def
      role_findUnique_name_def Let_def
      split: option.splits if_splits sum.splits prod.splits)

text \<open>
  C10. When the store has no role named consumer, \<open>register\<close> never reports
  that: the only errors it can throw are the conflict on an email that is already
  registered and the rejection of a generated id that is already taken. When the
  email is free and the generated ids are unused it returns the success result; the
  user, the profile and the session are stored, the table of role assignments is
  unchanged, and (no assignment referring to a user that does not exist) the new
  user holds no role.
\<close>

theorem register_without_consumer_role:
  assumes norole: "role_findUnique_name ''consumer'' s = None"
  shows "(register rt input req s = (s1, Inl e) \<longrightarrow>
            e = ConflictError ''Email already registered'' \<or> e = OtherError ''Unique constraint failed'')
   \<and> (user_findUnique_email (rt_toLowerCase rt (ri_email input)) s = None
        \<and> user_findUnique_id (rt_new_userId rt) s = None
        \<and> find (\<lambda>p. profile_id p = rt_new_profileId rt) (profiles s) = None
        \<and> profile_findUnique_userId (rt_new_userId rt) s = None
        \<and> session_findUnique (rt_new_sessionId rt) s = None \<longrightarrow>
        (\<exists>s' result user profile session.
            register rt input req s = (s', Inr result)
          \<and> ar_user_id result = rt_new_userId rt
          \<and> ar_user_email result = rt_toLowerCase rt (ri_email input)
          \<and> ar_csrfToken result = session_csrfToken session
          \<and> ar_expiresAt result = session_expiresAt session
          \<and> user_findUnique_id (rt_new_userId rt) s' = Some user
          \<and> user_email user = rt_toLowerCase rt (ri_email input)
          \<and> profile_findUnique_userId (rt_new_userId rt) s' = Some profile
          \<and> session_findUnique (rt_new_sessionId rt) s' = Some session
          \<and> session_userId session = rt_new_userId rt
          \<and> userRoleAssignments s' = userRoleAssignments s
          \<and> ((\<forall>ra\<in>set (userRoleAssignments s). user_findUnique_id (ura_userId ra) s \<noteq> None)
                \<longrightarrow> heldRoles (rt_new_userId rt) s' = [])))"
proof (intro conjI impI)
  assume "register rt input req s = (s1, Inl e)"
  with norole show "e = ConflictError ''Email already registered'' \<or> e = OtherError ''Unique constraint failed''"
    by (rule register_errors)
next
  assume a: "user_findUnique_email (rt_toLowerCase rt (ri_email input)) s = None
        \<and> user_findUnique_id (rt_new_userId rt) s = None
        \<and> find (\<lambda>p. profile_id p = rt_new_profileId rt) (profiles s) = None
        \<and> profile_findUnique_userId (rt_new_userId rt) s = None
        \<and> session_findUnique (rt_new_sessionId rt) s = None"
  then have email: "user_findUnique_email (rt_toLowerCase rt (ri_email input)) s = None"
    and fu: "user_findUnique_id (rt_new_userId rt) s = None"
    and fp: "find (\<lambda>p. profile_id p = rt_new_profileId rt) (profiles s) = None"
    and fpu: "profile_findUnique_userId (rt_new_userId rt) s = None"
    and fs: "session_findUnique (rt_new_sessionId rt) s = None"
    by simp_all
  let ?user = "\<lparr>user_id = rt_new_userId rt, user_email = rt_toLowerCase rt (ri_email input),
             user_passwordHash = rt_hashPassword rt (ri_password input),
             user_isActive = default_isActive, user_lastLoginAt = None\<rparr>"
  let ?profile = "\<lparr>profile_id = rt_new_profileId rt, profile_userId = rt_new_userId rt,
             profile_firstName = ri_firstName input, profile_lastName = ri_lastName input\<rparr>"
  let ?session = "\<lparr>session_id = rt_new_sessionId rt, session_userId = rt_new_userId rt,
             session_token = rt_random_token rt, session_csrfToken = rt_random_csrfToken rt,
             session_userAgent = (case req of None \<Rightarrow> None | Some r \<Rightarrow> req_userAgent r),
             session_ipAddress = (case req of None \<Rightarrow> None | Some r \<Rightarrow> req_ip r),
             session_expiresAt = setDate_plus rt 7 (rt_now rt)\<rparr>"
  let ?log = "\<lparr>al_userId = Some (rt_new_userId rt), al_action = ''user.register'',
             al_resource = Some ''user'', al_resourceId = Some (rt_new_userId rt),
             al_ipAddress = (case req of None \<Rightarrow> None | Some r \<Rightarrow> req_ip r),
             al_userAgent = (case req of None \<Rightarrow> None | Some r \<Rightarrow> req_userAgent r)\<rparr>"
  define s' where "s' = s\<lparr>users := users s @ [?user], profiles := profiles s @ [?profile],
                           sessions := sessions s @ [?session], auditLogs := auditLogs s @ [?log]\<rparr>"
  define result where "result = \<lparr>ar_user_id = rt_new_userId rt,
           ar_user_email = rt_toLowerCase rt (ri_email input),
           ar_token = jwt_sign \<lparr>jwt_userId = rt_new_userId rt,
                                        jwt_sessionId = rt_new_sessionId rt\<rparr>
                        (rt_JWT_SECRET rt) (rt_JWT_EXPIRES_IN rt) (rt_signedAt rt),
           ar_csrfToken = rt_random_csrfToken rt,
           ar_expiresAt = setDate_plus rt 7 (rt_now rt)\<rparr>"
  have r: "register rt input req s = (s', Inr result)"
    unfolding s'_def result_def by (rule register_explicit [OF norole email fu fp fpu fs])
  have u: "user_findUnique_id (rt_new_userId rt) s' = Some ?user"
    using fu find_append_new [of "\<lambda>u. user_id u = rt_new_userId rt" "users s" ?user]
    by (simp add: user_findUnique_id_def s'_def)
  have p: "profile_findUnique_userId (rt_new_userId rt) s' = Some ?profile"
    using fpu find_append_new [of "\<lambda>p. profile_userId p = rt_new_userId rt" "profiles s" ?profile]
    by (simp add: profile_findUnique_userId_def s'_def)
  have se: "session_findUnique (rt_new_sessionId rt) s' = Some ?session"
    using fs find_append_new [of "\<lambda>x. session_id x = rt_new_sessionId rt" "sessions s" ?session]
    by (simp add: session_findUnique_def s'_def)
  have same: "userRoleAssignments s' = userRoleAssignments s"
    by (simp add: s'_def)
  have none: "heldRoles (rt_new_userId rt) s' = []"
    if "\<forall>ra\<in>set (userRoleAssignments s). user_findUnique_id (ura_userId ra) s \<noteq> None"
  proof -
    have "filter (\<lambda>ra. ura_userId ra = rt_new_userId rt) (userRoleAssignments s) = []"
      using that fu by (auto simp: filter_empty_conv)
    then show ?thesis by (simp add: heldRoles_def same)
  qed
  have fields: "ar_user_id result = rt_new_userId rt"
    "ar_user_email result = rt_toLowerCase rt (ri_email input)"
    "ar_csrfToken result = session_csrfToken ?session"
    "ar_expiresAt result = session_expiresAt ?session"
    "user_email ?user = rt_toLowerCase rt (ri_email input)"
    "session_userId ?session = rt_new_userId rt"
    by (simp_all add: result_def)
  show "\<exists>s' result user profile session.
            register rt input req s = (s', Inr result)
          \<and> ar_user_id result = rt_new_userId rt
          \<and> ar_user_email result = rt_toLowerCase rt (ri_email input)
          \<and> ar_csrfToken result = session_csrfToken session
          \<and> ar_expiresAt result = session_expiresAt session
          \<and> user_findUnique_id (rt_new_userId rt) s' = Some user
          \<and> user_email user = rt_toLowerCase rt (ri_email input)
          \<and> profile_findUnique_userId (rt_new_userId rt) s' = Some profile
          \<and> session_findUnique (rt_new_sessionId rt) s' = Some session
          \<and> session_userId session = rt_new_userId rt
          \<and> userRoleAssignments s' = userRoleAssignments s
          \<and> ((\<forall>ra\<in>set (userRoleAssignments s). user_findUnique_id (ura_userId ra) s \<noteq> None)
                \<longrightarrow> heldRoles (rt_new_userId rt) s' = [])"
    using r u p se same none fields by blast
qed

theorem register_without_consumer_role_witness:
  "role_findUnique_name ''consumer'' store1 = None
   \<and> user_findUnique_email (rt_toLowerCase rt0 (ri_email carol_input)) store1 = None
   \<and> user_findUnique_id (rt_new_userId rt0) store1 = None
   \<and> find (\<lambda>p. profile_id p = rt_new_profileId rt0) (profiles store1) = None
   \<and> profile_findUnique_userId (rt_new_userId rt0) store1 = None
   \<and> session_findUnique (rt_new_sessionId rt0) store1 = None
   \<and> (\<exists>s' result. register rt0 carol_input None store1 = (s', Inr result)
         \<and> ar_user_id result = ''u9'' \<and> ar_user_email result = ''carol@b.com''
         \<and> map user_id (users s') = [''u1'', ''u2'', ''u9'']
         \<and> map profile_userId (profiles s') = [''u9'']
         \<and> map session_id (sessions s') = [''s1'', ''s2'', ''s9'']
         \<and> userRoleAssignments s' = []
         \<and> heldRoles ''u9'' s' = [])"
proof -
  have h: "role_findUnique_name ''consumer'' store1 = None"
    "user_findUnique_email (rt_toLowerCase rt0 (ri_email carol_input)) store1 = None"
    "user_findUnique_id (rt_new_userId rt0) store1 = None"
    "find (\<lambda>p. profile_id p = rt_new_profileId rt0) (profiles store1) = None"
    "profile_findUnique_userId (rt_new_userId rt0) store1 = None"
    "session_findUnique (rt_new_sessionId rt0) store1 = None"
    by (simp_all add: role_findUnique_name_def user_findUnique_email_def user_findUnique_id_def
        profile_findUnique_userId_def session_findUnique_def carol_input_def ascii_toLowerCase_examples
        example_defs)
  have e: "register rt0 carol_input None store1 = (s', Inr result) \<Longrightarrow>
             map user_id (users s') = [''u1'', ''u2'', ''u9'']
           \<and> map profile_userId (profiles s') = [''u9'']
           \<and> map session_id (sessions s') = [''s1'', ''s2'', ''s9'']" for s' result
    unfolding register_explicit [OF h] by (auto simp: example_defs)
  show ?thesis
    using register_without_consumer_role [OF h(1), of rt0 carol_input None store1 ZodError] h e
    apply (simp add: ascii_toLowerCase_examples carol_input_def rt0_def)
    apply (elim exE conjE)
    apply (intro exI conjI)
    apply assumption
    apply (simp_all add: example_defs)
    done
qed

section \<open>Properties of the write groups\<close>

lemmas example_defs2 = example_defs alice_profile_def consent1_def monday_def sales_instance_update_def
  store2_def strict_schema_def req0_def franchise_owner_def

lemma prisma_transaction_all_or_nothing:
  "(\<exists>e. run_writes ws s = Inl e \<and> prisma_transaction ws s = (s, Inl e))
   \<or> (\<exists>s'. run_writes ws s = Inr s' \<and> prisma_transaction ws s = (s', Inr ()))"
  by (cases "run_writes ws s") (simp_all add: prisma_transaction_def)

lemma changePassword_all_or_nothing:
  assumes "changePassword rt userId input req s = (s', r)"
  shows "(\<exists>e. r = Inl e \<and> s' = s)
       \<or> (r = Inr ()
          \<and> map user_passwordHash (filter (\<lambda>u. user_id u = userId) (users s'))
              = map (\<lambda>u. rt_hashPassword rt (cp_newPassword input)) (filter (\<lambda>u. user_id u = userId) (users s))
          \<and> filter (\<lambda>x. session_userId x = userId) (sessions s') = [])"
  using assms
  by (auto simp: changePassword_def prisma_transaction_def user_update_def
      session_deleteMany_userId_def createAuditLog_def Let_def filter_map comp_def
      split: option.splits if_splits sum.splits prod.splits)

lemma errorHandler_failure:
  "\<exists>code message. res_body (errorHandler node_env err res) = Some (Failure code message)"
  by (cases err) (simp_all add: errorHandler_def)

lemma put_sales_instance_hours_all_or_nothing:
  assumes "put_sales_instance_hours node_env schema rt cookie params_id body s = (s', res)"
  shows "((\<exists>code message. res_body res = Some (Failure code message)) \<and> s' = s)
       \<or> (\<exists>hours. body = Some hours
            \<and> operatingHours s' =
                filter (\<lambda>h. oh_salesInstanceId h \<noteq> params_id) (operatingHours s)
                @ map (\<lambda>h. \<lparr>oh_salesInstanceId = params_id, oh_dayOfWeek = ohi_dayOfWeek h,
                            oh_openTime = ohi_openTime h, oh_closeTime = ohi_closeTime h,
                            oh_isOpen = ohi_isOpen h\<rparr>) hours)"
proof (cases "authenticate rt cookie s")
  case (Inl e)
  then show ?thesis using assms errorHandler_failure [of node_env e res0]
    by (auto simp: put_sales_instance_hours_def)
next
  case (Inr ctx)
  show ?thesis
  proof (cases "requirePermission
                  [\<lparr>pc_permission = ''sales_instance.update'', pc_scope = None, pc_organizationId = None\<rparr>]
                  (Some (ac_user ctx))")
    case (Inl e)
    then show ?thesis using assms Inr errorHandler_failure [of node_env e res0]
      by (auto simp: put_sales_instance_hours_def)
  next
    case ok: (Inr u)
    show ?thesis
    proof (cases body)
      case None
      then show ?thesis using assms Inr ok errorHandler_failure [of node_env ZodError res0]
        by (auto simp: put_sales_instance_hours_def)
    next
      case (Some hours)
      let ?rows = "map (\<lambda>h. \<lparr>oh_salesInstanceId = params_id, oh_dayOfWeek = ohi_dayOfWeek h,
                            oh_openTime = ohi_openTime h, oh_closeTime = ohi_closeTime h,
                            oh_isOpen = ohi_isOpen h\<rparr>) hours"
      let ?ws = "[operatingHour_deleteMany params_id, operatingHour_createMany schema ?rows]"
      from prisma_transaction_all_or_nothing [of ?ws s]
      show ?thesis
      proof
        assume "\<exists>e. run_writes ?ws s = Inl e \<and> prisma_transaction ?ws s = (s, Inl e)"
        then obtain e where "prisma_transaction ?ws s = (s, Inl e)" by blast
        then show ?thesis using assms Inr ok Some errorHandler_failure [of node_env e res0]
          by (auto simp: put_sales_instance_hours_def)
      next
        assume "\<exists>s1. run_writes ?ws s = Inr s1 \<and> prisma_transaction ?ws s = (s1, Inr ())"
        then obtain s1 where r: "run_writes ?ws s = Inr s1"
          and p: "prisma_transaction ?ws s = (s1, Inr ())" by blast
        from r have "operatingHours s1 =
            filter (\<lambda>h. oh_salesInstanceId h \<noteq> params_id) (operatingHours s) @ ?rows"
          by (auto simp: operatingHour_deleteMany_def operatingHour_createMany_def split: if_splits)
        then show ?thesis using assms Inr ok Some p
          by (auto simp: put_sales_instance_hours_def)
      qed
    qed
  qed
qed

lemma put_sales_instance_hours_rollback_example:
  "put_sales_instance_hours ''production'' strict_schema rt0 (Some jwt1) ''si1''
     (Some [\<lparr>ohi_dayOfWeek = 2, ohi_openTime = ''10:00'', ohi_closeTime = ''18:00'', ohi_isOpen = True\<rparr>,
            \<lparr>ohi_dayOfWeek = 2, ohi_openTime = ''11:00'', ohi_closeTime = ''19:00'', ohi_isOpen = True\<rparr>])
     store2
   = (store2, \<lparr>res_status = 500, res_cookies = [],
       res_body = Some (Failure ''INTERNAL_ERROR'' ''An unexpected error occurred'')\<rparr>)"
  by (simp add: put_sales_instance_hours_def authenticate_def jwt_verify_def session_findUnique_def
      user_findUnique_id_def heldRoles_def grantedPermissions_def requirePermission_def
      hasPermission_def roleSatisfies_def permMatches_def truthy_def prisma_transaction_def
      operatingHour_deleteMany_def operatingHour_createMany_def
      errorHandler_def res0_def Let_def example_defs2)

text \<open>
  C3. The claim has each of the three write groups run as one all-or-nothing
  transaction. The password change and the replacement of the operating hours do
  (the two lemmas above: on any failure the store is the one before the call). The
  consent handler does not: the revocation and the insert are two separate awaited
  calls. Here the insert is rejected (the version has ten characters), the response
  is the error 500, and the store that is left has the old consent revoked and no
  new consent: one write of the group took effect and the other did not.
\<close>

theorem post_profile_consents_partial_write:
  "post_profile_consents ''production'' strict_schema rt0 (Some jwt1) req0
     (Some \<lparr>ci_type = ''marketing'', ci_granted = False, ci_version = ''2024-06-01''\<rparr>) store2
   = (store2\<lparr>consents := [consent1\<lparr>consent_revokedAt := Some 1000\<rparr>]\<rparr>,
      \<lparr>res_status = 500, res_cookies = [],
       res_body = Some (Failure ''INTERNAL_ERROR'' ''An unexpected error occurred'')\<rparr>)"
  by (simp add: post_profile_consents_def authenticate_def jwt_verify_def session_findUnique_def
      user_findUnique_id_def profile_findUnique_userId_def consent_updateMany_revoke_def
      consent_create_def errorHandler_def res0_def Let_def example_defs2)

end
